theory Spec2Isabelle
  imports Main "HOL-Library.Word" "HOL-Library.Multiset"
begin

section \<open>JavaScript values used by \<open>src/services/pdfService.ts\<close>\<close>

text \<open>
  A thrown value is a \<open>TypeError\<close>, some other \<open>Error\<close> (this covers
  \<open>new Error(msg)\<close> and every other subclass, which the code never tells apart), or a
  value that is not an \<open>Error\<close> at all.
\<close>

datatype js_error = TypeError string | Error string | NonError

fun instanceof_TypeError :: "js_error \<Rightarrow> bool" where
  "instanceof_TypeError (TypeError m) = True"
| "instanceof_TypeError (Error m) = False"
| "instanceof_TypeError NonError = False"

fun instanceof_Error :: "js_error \<Rightarrow> bool" where
  "instanceof_Error (TypeError m) = True"
| "instanceof_Error (Error m) = True"
| "instanceof_Error NonError = False"

fun message :: "js_error \<Rightarrow> string" where
  "message (TypeError m) = m"
| "message (Error m) = m"
| "message NonError = []"

text \<open>
  The eventual state of a promise. \<open>Pending\<close> is a promise that never settles: the
  code sets no timeout, so an awaited operation that hangs leaves the caller pending.
\<close>

datatype 'a promise = Pending | Fulfilled 'a | Rejected js_error

text \<open>The \<open>resolve\<close> and \<open>reject\<close> callbacks of an executor: only the first call settles.\<close>

definition resolve :: "'a \<Rightarrow> 'a promise \<Rightarrow> 'a promise" where
  "resolve v p = (case p of Pending \<Rightarrow> Fulfilled v | Fulfilled w \<Rightarrow> Fulfilled w | Rejected e \<Rightarrow> Rejected e)"

definition reject :: "js_error \<Rightarrow> 'a promise \<Rightarrow> 'a promise" where
  "reject e p = (case p of Pending \<Rightarrow> Rejected e | Fulfilled w \<Rightarrow> Fulfilled w | Rejected e' \<Rightarrow> Rejected e')"

text \<open>\<open>await p\<close> followed by the rest of an async body.\<close>

definition await :: "'a promise \<Rightarrow> ('a \<Rightarrow> 'b promise) \<Rightarrow> 'b promise" where
  "await p k = (case p of Pending \<Rightarrow> Pending | Fulfilled v \<Rightarrow> k v | Rejected e \<Rightarrow> Rejected e)"

text \<open>\<open>try { p } catch (error) { handler }\<close> around an awaited body.\<close>

definition catch :: "'a promise \<Rightarrow> (js_error \<Rightarrow> 'a promise) \<Rightarrow> 'a promise" where
  "catch p handler = (case p of Pending \<Rightarrow> Pending | Fulfilled v \<Rightarrow> Fulfilled v | Rejected e \<Rightarrow> handler e)"

subsection \<open>Strings\<close>

fun startsWith :: "string \<Rightarrow> string \<Rightarrow> bool" where
  "startsWith s [] = True"
| "startsWith [] (p # ps) = False"
| "startsWith (c # cs) (p # ps) = (c = p \<and> startsWith cs ps)"

text \<open>\<open>s.includes(p)\<close>\<close>

fun String_includes :: "string \<Rightarrow> string \<Rightarrow> bool" where
  "String_includes [] p = (p = [])"
| "String_includes (c # cs) p = (startsWith (c # cs) p \<or> String_includes cs p)"

text \<open>
  A string is the sequence of its UTF-8 bytes, so ASCII text is searched for as it is.

  \<open>s.toLowerCase()\<close>. The ASCII capitals become small letters. Two more characters
  have ASCII text in their lower case: KELVIN SIGN (U+212A, bytes E2 84 AA) becomes \<open>k\<close>,
  and LATIN CAPITAL LETTER I WITH DOT ABOVE (U+0130, bytes C4 B0) becomes \<open>i\<close> followed by
  U+0307 (bytes CC 87). Every other character is left as it is here: JavaScript maps it to
  characters outside ASCII, so what the result holds as ASCII text, which is all that line
  198 looks for, is the same.
\<close>

definition toLowerCase_char :: "char \<Rightarrow> char" where
  "toLowerCase_char c =
     (case map_of (zip ''ABCDEFGHIJKLMNOPQRSTUVWXYZ'' ''abcdefghijklmnopqrstuvwxyz'') c of
        None \<Rightarrow> c | Some l \<Rightarrow> l)"

fun toLowerCase :: "string \<Rightarrow> string" where
  "toLowerCase (a # b # c # cs) =
     (if [a, b, c] = [CHR 0xE2, CHR 0x84, CHR 0xAA] then CHR ''k'' # toLowerCase cs
      else if [a, b] = [CHR 0xC4, CHR 0xB0] then [CHR ''i'', CHR 0xCC, CHR 0x87] @ toLowerCase (c # cs)
      else toLowerCase_char a # toLowerCase (b # c # cs))"
| "toLowerCase [a, b] =
     (if [a, b] = [CHR 0xC4, CHR 0xB0] then [CHR ''i'', CHR 0xCC, CHR 0x87]
      else [toLowerCase_char a, toLowerCase_char b])"
| "toLowerCase [a] = [toLowerCase_char a]"
| "toLowerCase [] = []"

text \<open>\<open>s.split(sep)\<close> for a one-character separator.\<close>

fun String_split :: "char \<Rightarrow> string \<Rightarrow> string list" where
  "String_split sep [] = [[]]"
| "String_split sep (c # cs) =
     (if c = sep then [] # String_split sep cs
      else (case String_split sep cs of [] \<Rightarrow> [[c]] | w # ws \<Rightarrow> (c # w) # ws))"

text \<open>\<open>xs[i]\<close>: \<open>undefined\<close> (here \<open>None\<close>) out of range.\<close>

fun index :: "'a list \<Rightarrow> nat \<Rightarrow> 'a option" where
  "index [] i = None"
| "index (x # xs) 0 = Some x"
| "index (x # xs) (Suc i) = index xs i"

text \<open>A non-negative integer inside a template literal.\<close>

definition digit :: "nat \<Rightarrow> char" where
  "digit n = ''0123456789'' ! n"

function show_nat :: "nat \<Rightarrow> string" where
  "show_nat n = (if n < 10 then [digit n] else show_nat (n div 10) @ [digit (n mod 10)])"
  by pat_completeness auto
termination
  by (relation "measure (\<lambda>n. n)") auto

declare show_nat.simps [simp del]

text \<open>
  An optional string property: \<open>None\<close> is \<open>undefined\<close>. \<open>x || 'literal'\<close> takes the
  literal when \<open>x\<close> is \<open>undefined\<close> or the empty string; \<open>Boolean(x)\<close> is its
  truthiness; \<open>`${x}`\<close> prints \<open>undefined\<close> as that word.
\<close>

definition Boolean :: "string option \<Rightarrow> bool" where
  "Boolean x = (case x of None \<Rightarrow> False | Some s \<Rightarrow> s \<noteq> [])"

definition orElse :: "string option \<Rightarrow> string \<Rightarrow> string" where
  "orElse x d = (case x of None \<Rightarrow> d | Some s \<Rightarrow> if s = [] then d else s)"

definition template :: "string option \<Rightarrow> string" where
  "template x = (case x of None \<Rightarrow> ''undefined'' | Some s \<Rightarrow> s)"

text \<open>\<open>r?.f ?? d\<close> on an optional record with an optional flag \<open>f\<close>.\<close>

definition nullish :: "'r option \<Rightarrow> ('r \<Rightarrow> bool option) \<Rightarrow> bool \<Rightarrow> bool" where
  "nullish r f d = (case Option.bind r f of None \<Rightarrow> d | Some b \<Rightarrow> b)"

subsection \<open>Parsed JSON\<close>

datatype json =
    JNull | JBool bool | JNum int | JStr string | JArr "json list" | JObj "(string \<times> json) list"

text \<open>
  A value returned by \<open>response.json()\<close>. An object is the list of its properties, each
  name once; numbers are the integers.

  \<open>errorData.message\<close>: reading a property of \<open>null\<close> throws a \<open>TypeError\<close>; on any
  other value without that property the result is \<open>undefined\<close> (\<open>None\<close>).
\<close>

fun get_message :: "json \<Rightarrow> js_error + json option" where
  "get_message JNull = Inl (TypeError ''Cannot read properties of null'')"
| "get_message (JObj kvs) = Inr (map_of kvs ''message'')"
| "get_message (JBool b) = Inr None"
| "get_message (JNum n) = Inr None"
| "get_message (JStr s) = Inr None"
| "get_message (JArr vs) = Inr None"

fun truthy :: "json \<Rightarrow> bool" where
  "truthy JNull = False"
| "truthy (JBool b) = b"
| "truthy (JNum n) = (n \<noteq> 0)"
| "truthy (JStr s) = (s \<noteq> [])"
| "truthy (JArr vs) = True"
| "truthy (JObj kvs) = True"

section \<open>Data model\<close>

type_synonym byte = "8 word"

text \<open>
  Modelled from the spec: the declarations of \<open>Document\<close>, \<open>SelectedDocument\<close>,
  \<open>ProjectFormData\<close> and \<open>ProductType\<close> are in \<open>@/types\<close>, which is not among the
  sources. The records have the fields that \<open>generatePacket\<close> reads, typed as the data
  model of the spec gives them: \<open>order\<close> is an integer, \<open>selected\<close> a boolean, and a
  product type is the text of its enumeration value. A text property that may be missing
  is a \<open>string option\<close>, with \<open>None\<close> for \<open>undefined\<close>. The field \<open>id\<close> is named
  \<open>ident\<close> here.
\<close>

record Document =
  ident :: string
  name :: "string option"
  url :: "string option"
  type :: "string option"

record SelectedDocument =
  ident :: string
  document :: Document
  selected :: bool
  order :: int

record FetchedDocument =
  ident :: string
  name :: string
  url :: string
  type :: string
  fileData :: string

text \<open>What \<open>FileReader.readAsDataURL\<close> does with a blob: it loads a result string, or fails.\<close>

datatype FileReader_outcome = Load string | ReadError

record Blob =
  type :: string
  readAsDataURL :: FileReader_outcome

text \<open>
  A \<open>Response\<close>: its status line, and what each body-reading method call made by the
  code settles to. \<open>text_body\<close> is \<open>text()\<close>, which the code calls only after
  \<open>json()\<close> has failed; on a \<open>Response\<close> of the Fetch standard the body is consumed by
  then and that call rejects, so no property below relies on it being fulfilled.
\<close>

record response =
  status :: nat
  statusText :: string
  blob :: "Blob promise"
  json :: "json promise"
  text_body :: "string promise"
  arrayBuffer :: "byte list promise"

definition ok :: "response \<Rightarrow> bool" where
  "ok r = (200 \<le> response.status r \<and> response.status r \<le> 299)"

record StatusFlags =
  forReview :: "bool option"
  forApproval :: "bool option"
  forRecord :: "bool option"
  forInformationOnly :: "bool option"

record SubmittalType =
  tds :: "bool option"
  threePartSpecs :: "bool option"
  testReportIccEsr5194 :: "bool option"
  testReportIccEsl1645 :: "bool option"
  fireAssembly :: "bool option"
  fireAssembly01 :: "bool option"
  fireAssembly02 :: "bool option"
  fireAssembly03 :: "bool option"
  msds :: "bool option"
  leedGuide :: "bool option"
  installationGuide :: "bool option"
  warranty :: "bool option"
  samples :: "bool option"
  other :: "bool option"
  otherText :: "string option"

text \<open>
  \<open>Partial<ProjectFormData>\<close>: every field may be absent (\<open>None\<close>). The
  \<open>projectData\<close> object of the request has the same fields, so it has the same type and
  being defined is a property to prove, not a consequence of the type.
\<close>

record ProjectFormData =
  projectName :: "string option"
  submittedTo :: "string option"
  preparedBy :: "string option"
  date :: "string option"
  projectNumber :: "string option"
  emailAddress :: "string option"
  phoneNumber :: "string option"
  product :: "string option"
  productType :: "string option"
  status :: "StatusFlags option"
  submittalType :: "SubmittalType option"

record PacketRequest =
  projectData :: ProjectFormData
  documents :: "FetchedDocument list"
  selectedDocumentNames :: "string list"
  allAvailableDocuments :: "string option list"

subsection \<open>The collaborators\<close>

text \<open>
  The collaborators of one call. \<open>fetch_document i u\<close> is what \<open>fetch(u)\<close> settles to for
  the entry at position \<open>i\<close> of the sorted selection, and \<open>completion i\<close> the time at
  which that entry's processing settles. \<open>getDocumentsByProductType\<close> is the document
  registry, \<open>toLocaleDateString\<close> the current date in long form, \<open>fetch_worker\<close> the POST
  to the rendering service. \<open>JSON_stringify\<close> and \<open>String_of\<close> (the conversion made by a
  template literal) are the built-ins applied to a parsed error body.
\<close>

record env =
  fetch_document :: "nat \<Rightarrow> string \<Rightarrow> response promise"
  completion :: "nat \<Rightarrow> nat"
  getDocumentsByProductType :: "string \<Rightarrow> Document list promise"
  toLocaleDateString :: string
  fetch_worker :: "string \<Rightarrow> PacketRequest \<Rightarrow> response promise"
  JSON_stringify :: "json \<Rightarrow> string"
  String_of :: "json \<Rightarrow> string"

text \<open>The network requests issued, in the order they are issued. Console output is not recorded.\<close>

datatype event =
    Fetch string
  | GetDocumentsByProductType string
  | Post string PacketRequest

text \<open>
  Arrays live in a store, so that sorting in place is visible: \<open>arrays h a\<close> is the array
  at reference \<open>a\<close>, and the references below \<open>allocated h\<close> are in use.
\<close>

record heap =
  arrays :: "nat \<Rightarrow> SelectedDocument list"
  allocated :: nat

text \<open>\<open>a.filter(p)\<close> returns a new array.\<close>

definition Array_filter :: "(SelectedDocument \<Rightarrow> bool) \<Rightarrow> nat \<Rightarrow> heap \<Rightarrow> heap \<times> nat" where
  "Array_filter p a h =
     (h\<lparr>arrays := (arrays h)(allocated h := filter p (arrays h a)), allocated := Suc (allocated h)\<rparr>,
      allocated h)"

text \<open>
  \<open>a.sort(compare)\<close> sorts the array at \<open>a\<close> in place and returns \<open>a\<close>. The sort is
  stable: an element goes before the first one it does not compare greater than.
\<close>

fun insert_sorted :: "('a \<Rightarrow> 'a \<Rightarrow> int) \<Rightarrow> 'a \<Rightarrow> 'a list \<Rightarrow> 'a list" where
  "insert_sorted compare x [] = [x]"
| "insert_sorted compare x (y # ys) =
     (if compare x y \<le> 0 then x # y # ys else y # insert_sorted compare x ys)"

definition stable_sort :: "('a \<Rightarrow> 'a \<Rightarrow> int) \<Rightarrow> 'a list \<Rightarrow> 'a list" where
  "stable_sort compare xs = foldr (insert_sorted compare) xs []"

definition Array_sort :: "(SelectedDocument \<Rightarrow> SelectedDocument \<Rightarrow> int) \<Rightarrow> nat \<Rightarrow> heap \<Rightarrow> heap \<times> nat" where
  "Array_sort compare a h = (h\<lparr>arrays := (arrays h)(a := stable_sort compare (arrays h a))\<rparr>, a)"

section \<open>The service\<close>

record PDFService =
  workerUrl :: string

text \<open>The constructor (line 9): the configured address, or the fixed one.\<close>

definition constructor :: "string option \<Rightarrow> PDFService" where
  "constructor VITE_WORKER_URL =
     \<lparr>workerUrl = orElse VITE_WORKER_URL ''https://pdf-packet-generator.maxterra-pdf-builder.workers.dev''\<rparr>"

subsection \<open>Processing one document (lines 29 to 76)\<close>

text \<open>
  The handlers set on the \<open>FileReader\<close> (lines 49 to 58), as transformers of the state
  of the promise they settle. \<open>onloadend\<close> runs after a failed read too, with a \<open>null\<close>
  result, and then throws inside the handler before it settles anything.
\<close>

definition onloadend :: "string option \<Rightarrow> string promise \<Rightarrow> string promise" where
  "onloadend result p =
     (case result of
        None \<Rightarrow> p
      | Some base64String \<Rightarrow>
          (let base64Data = orElse (index (String_split CHR '','' base64String) 1) [];
               p' = (if base64Data = [] then reject (Error ''Failed to encode document as base64'') p else p)
           in resolve base64Data p'))"

definition onerror :: "string promise \<Rightarrow> string promise" where
  "onerror p = reject (Error ''Failed to read document file'') p"

text \<open>The promise of lines 48 to 60, once \<open>reader.readAsDataURL(blob)\<close> has finished.\<close>

definition encode :: "Blob \<Rightarrow> string promise" where
  "encode b =
     (case readAsDataURL b of
        Load base64String \<Rightarrow> onloadend (Some base64String) Pending
      | ReadError \<Rightarrow> onloadend None (onerror Pending))"

text \<open>Lines 35 to 60: the value assigned to \<open>fileData\<close> for an entry that has a URL.\<close>

definition fetchFileData :: "env \<Rightarrow> nat \<Rightarrow> string \<Rightarrow> string promise" where
  "fetchFileData env i u =
     await (fetch_document env i u) (\<lambda>response.
       if \<not> ok response
       then Rejected (Error (''Failed to fetch document: '' @ show_nat (response.status response)
                              @ '' '' @ statusText response))
       else await (blob response) encode)"

text \<open>Lines 65 to 71.\<close>

definition fetched :: "SelectedDocument \<Rightarrow> string \<Rightarrow> FetchedDocument" where
  "fetched doc data =
     \<lparr>FetchedDocument.ident = SelectedDocument.ident doc,
      name = orElse (Document.name (document doc)) ''Unnamed Document'',
      url = orElse (Document.url (document doc)) [],
      type = orElse (Document.type (document doc)) ''other'',
      fileData = orElse (Some data) []\<rparr>"

text \<open>
  The callback of \<open>sortedDocs.map\<close> for the entry at position \<open>i\<close>: the requests it
  issues, the time at which its promise settles (at once when the entry has no URL), and
  what it settles to. Every failure is caught and replaced by an error naming the document
  (lines 72 to 75).
\<close>

definition processDocument :: "env \<Rightarrow> nat \<Rightarrow> SelectedDocument \<Rightarrow> event list \<times> nat \<times> FetchedDocument promise" where
  "processDocument env i doc =
     (let failed = (\<lambda>error. Rejected (Error (''Failed to process document: ''
                                            @ template (Document.name (document doc)))))
      in if Boolean (Document.url (document doc))
         then (let u = orElse (Document.url (document doc)) []
               in ([Fetch u], Suc (completion env i),
                   catch (await (fetchFileData env i u) (\<lambda>data. Fulfilled (fetched doc data))) failed))
         else ([], 0,
               catch (Rejected (Error (''Document '' @ template (Document.name (document doc))
                                       @ '' has no URL''))) failed))"

subsection \<open>\<open>Promise.all\<close> (line 28)\<close>

text \<open>
  The rejection that settles first, the earlier position winning among equal times;
  without a rejection, the values in array order once every promise is fulfilled.
\<close>

fun first_rejection :: "(nat \<times> 'a promise) list \<Rightarrow> (nat \<times> js_error) option" where
  "first_rejection [] = None"
| "first_rejection ((t, Rejected e) # ps) =
     (case first_rejection ps of
        None \<Rightarrow> Some (t, e)
      | Some (t', e') \<Rightarrow> if t' < t then Some (t', e') else Some (t, e))"
| "first_rejection ((t, Pending) # ps) = first_rejection ps"
| "first_rejection ((t, Fulfilled v) # ps) = first_rejection ps"

fun all_fulfilled :: "'a promise list \<Rightarrow> 'a list option" where
  "all_fulfilled [] = Some []"
| "all_fulfilled (Fulfilled v # ps) = map_option ((#) v) (all_fulfilled ps)"
| "all_fulfilled (Pending # ps) = None"
| "all_fulfilled (Rejected e # ps) = None"

definition Promise_all :: "(nat \<times> 'a promise) list \<Rightarrow> 'a list promise" where
  "Promise_all ps =
     (case first_rejection ps of
        Some (t, e) \<Rightarrow> Rejected e
      | None \<Rightarrow> (case all_fulfilled (map snd ps) of None \<Rightarrow> Pending | Some vs \<Rightarrow> Fulfilled vs))"

text \<open>Lines 28 to 77: every callback runs up to its first \<open>await\<close>, then the promises are joined.\<close>

definition fetchDocuments :: "env \<Rightarrow> SelectedDocument list \<Rightarrow> event list \<times> FetchedDocument list promise" where
  "fetchDocuments env sortedDocs =
     (let started = map (\<lambda>(i, doc). processDocument env i doc) (enumerate 0 sortedDocs)
      in (concat (map fst started), Promise_all (map snd started)))"

subsection \<open>The request (lines 79 to 141)\<close>

definition buildProjectData :: "env \<Rightarrow> ProjectFormData \<Rightarrow> string \<Rightarrow> ProjectFormData" where
  "buildProjectData env formData productType' =
     \<lparr>projectName = Some (orElse (projectName formData) ''Untitled Project''),
      submittedTo = Some (orElse (submittedTo formData) ''N/A''),
      preparedBy = Some (orElse (preparedBy formData) ''N/A''),
      date = Some (orElse (date formData) (toLocaleDateString env)),
      projectNumber = Some (orElse (projectNumber formData) ''N/A''),
      emailAddress = Some (orElse (emailAddress formData) ''N/A''),
      phoneNumber = Some (orElse (phoneNumber formData) ''N/A''),
      product = Some (orElse (product formData) ''3/4-in (20mm)''),
      productType = Some productType',
      status = Some
        \<lparr>forReview = Some (nullish (status formData) forReview False),
         forApproval = Some (nullish (status formData) forApproval False),
         forRecord = Some (nullish (status formData) forRecord False),
         forInformationOnly = Some (nullish (status formData) forInformationOnly False)\<rparr>,
      submittalType = Some
        \<lparr>tds = Some (nullish (submittalType formData) tds False),
         threePartSpecs = Some (nullish (submittalType formData) threePartSpecs False),
         testReportIccEsr5194 = Some (nullish (submittalType formData) testReportIccEsr5194 False),
         testReportIccEsl1645 = Some (nullish (submittalType formData) testReportIccEsl1645 False),
         fireAssembly = Some (nullish (submittalType formData) fireAssembly False),
         fireAssembly01 = Some (nullish (submittalType formData) fireAssembly01 False),
         fireAssembly02 = Some (nullish (submittalType formData) fireAssembly02 False),
         fireAssembly03 = Some (nullish (submittalType formData) fireAssembly03 False),
         msds = Some (nullish (submittalType formData) msds False),
         leedGuide = Some (nullish (submittalType formData) leedGuide False),
         installationGuide = Some (nullish (submittalType formData) installationGuide False),
         warranty = Some (nullish (submittalType formData) warranty False),
         samples = Some (nullish (submittalType formData) samples False),
         other = Some (nullish (submittalType formData) other False),
         otherText = Some (orElse (Option.bind (submittalType formData) otherText) [])\<rparr>\<rparr>"

definition buildPayload ::
  "env \<Rightarrow> ProjectFormData \<Rightarrow> string \<Rightarrow> SelectedDocument list \<Rightarrow> FetchedDocument list \<Rightarrow> Document list \<Rightarrow> PacketRequest" where
  "buildPayload env formData productType' sortedDocs documentsWithData allCategoryDocs =
     \<lparr>projectData = buildProjectData env formData productType',
      documents = documentsWithData,
      selectedDocumentNames =
        map (\<lambda>doc. orElse (Document.name (document doc)) ''Unnamed Document'') sortedDocs,
      allAvailableDocuments = filter Boolean (map Document.name allCategoryDocs)\<rparr>"

subsection \<open>The response of the rendering service (lines 159 to 177)\<close>

text \<open>Lines 161 to 167: what is appended to \<open>errorMessage\<close>.\<close>

definition errorDetail :: "env \<Rightarrow> response \<Rightarrow> string promise" where
  "errorDetail env workerResponse =
     catch
       (await (json workerResponse) (\<lambda>errorData.
          case get_message errorData of
            Inl e \<Rightarrow> Rejected e
          | Inr None \<Rightarrow> Fulfilled ('' - '' @ JSON_stringify env errorData)
          | Inr (Some m) \<Rightarrow>
              Fulfilled ('' - '' @ (if truthy m then String_of env m
                                   else JSON_stringify env errorData))))
       (\<lambda>e. await (text_body workerResponse) (\<lambda>text. Fulfilled ('' - '' @ text)))"

definition handleResponse :: "env \<Rightarrow> response \<Rightarrow> byte list promise" where
  "handleResponse env workerResponse =
     (if \<not> ok workerResponse
      then (let errorMessage = ''Worker request failed: '' @ show_nat (response.status workerResponse)
                                 @ '' '' @ statusText workerResponse
            in await (errorDetail env workerResponse)
                 (\<lambda>detail. Rejected (Error (errorMessage @ detail))))
      else await (arrayBuffer workerResponse) (\<lambda>pdfBuffer.
             if length pdfBuffer = 0 then Rejected (Error ''Received empty PDF from worker'')
             else Fulfilled pdfBuffer))"

subsection \<open>\<open>generatePacket\<close> (lines 13 to 206)\<close>

text \<open>
  Lines 79 to 177, reached once every document is fetched: the directory lookup, whose
  failure is caught and leaves \<open>allCategoryDocs\<close> empty (so the lookup, once caught, is
  never rejected), then the POST and its response.
\<close>

definition sendPacket ::
  "env \<Rightarrow> PDFService \<Rightarrow> ProjectFormData \<Rightarrow> SelectedDocument list \<Rightarrow> FetchedDocument list
     \<Rightarrow> event list \<times> byte list promise" where
  "sendPacket env this formData sortedDocs documentsWithData =
     (let productType' = orElse (productType formData) ''structural-floor'';
          lookup = catch (getDocumentsByProductType env productType') (\<lambda>error. Fulfilled [])
      in case lookup of
           Pending \<Rightarrow> ([GetDocumentsByProductType productType'], Pending)
         | Rejected e \<Rightarrow> ([GetDocumentsByProductType productType'], Rejected e)
         | Fulfilled allCategoryDocs \<Rightarrow>
             (let payload = buildPayload env formData productType' sortedDocs documentsWithData
                              allCategoryDocs;
                  endpoint = workerUrl this @ ''/generate-packet''
              in ([GetDocumentsByProductType productType', Post endpoint payload],
                  await (fetch_worker env endpoint payload) (handleResponse env))))"

text \<open>Lines 19 to 21 on the array's contents: the value of \<open>sortedDocs\<close>.\<close>

definition sorted_selection :: "SelectedDocument list \<Rightarrow> SelectedDocument list" where
  "sorted_selection selectedDocuments =
     stable_sort (\<lambda>a b. order a - order b) (filter selected selectedDocuments)"

text \<open>The body of the \<open>try\<close> block (lines 18 to 177), on the store.\<close>

definition generatePacket_try ::
  "env \<Rightarrow> PDFService \<Rightarrow> ProjectFormData \<Rightarrow> heap \<Rightarrow> nat \<Rightarrow> heap \<times> event list \<times> byte list promise" where
  "generatePacket_try env this formData h selectedDocuments =
     (let (h1, filtered) = Array_filter selected selectedDocuments h;
          (h2, sorted_ref) = Array_sort (\<lambda>a b. order a - order b) filtered h1;
          sortedDocs = arrays h2 sorted_ref
      in if length sortedDocs = 0
         then (h2, [], Rejected (Error ''No documents selected for packet generation''))
         else (let (requests, joined) = fetchDocuments env sortedDocs
               in case joined of
                    Pending \<Rightarrow> (h2, requests, Pending)
                  | Rejected e \<Rightarrow> (h2, requests, Rejected e)
                  | Fulfilled documentsWithData \<Rightarrow>
                      (let (requests', result) = sendPacket env this formData sortedDocs documentsWithData
                       in (h2, requests @ requests', result))))"

text \<open>The \<open>catch\<close> block (lines 179 to 205): the error that is thrown in place of \<open>error\<close>.\<close>

definition classify :: "PDFService \<Rightarrow> js_error \<Rightarrow> js_error" where
  "classify this error =
     (if instanceof_TypeError error \<and> String_includes (message error) ''fetch''
      then Error (''Cannot connect to PDF Worker at '' @ workerUrl this @ ''. ''
                  @ ''Please check your internet connection and verify the worker is accessible.'')
      else if instanceof_Error error \<and> String_includes (message error) ''Failed to process document''
      then Error ''One or more documents could not be loaded. Please verify all documents are accessible and try again.''
      else if instanceof_Error error \<and> String_includes (toLowerCase (message error)) ''bucket''
      then Error ''Document storage is not properly configured. Please contact support or verify your Supabase setup.''
      else if instanceof_Error error then error
      else Error ''Failed to generate PDF packet'')"

text \<open>
  \<open>generatePacket(formData, selectedDocuments)\<close>, where \<open>selectedDocuments\<close> is the
  reference of the caller's array: the store afterwards, the network requests issued, and
  what the returned promise settles to.
\<close>

definition generatePacket ::
  "env \<Rightarrow> PDFService \<Rightarrow> ProjectFormData \<Rightarrow> heap \<Rightarrow> nat \<Rightarrow> heap \<times> event list \<times> byte list promise" where
  "generatePacket env this formData h selectedDocuments =
     (let (h', requests, result) = generatePacket_try env this formData h selectedDocuments
      in (h', requests, catch result (\<lambda>error. Rejected (classify this error))))"

section \<open>Notions used by the properties\<close>

text \<open>The store after lines 19 to 21: one array more, holding the sorted selection.\<close>

definition after_selection :: "heap \<Rightarrow> nat \<Rightarrow> heap" where
  "after_selection h a =
     h\<lparr>arrays := (arrays h)(allocated h := sorted_selection (arrays h a)),
       allocated := Suc (allocated h)\<rparr>"

text \<open>
  The entry at position \<open>i\<close> cannot be loaded: it has no URL, or its fetch fails or
  answers with a status outside 200 to 299, or its body cannot be read, or the read fails,
  or the encoding is empty.
\<close>

definition documentFails :: "env \<Rightarrow> nat \<Rightarrow> SelectedDocument \<Rightarrow> bool" where
  "documentFails env i doc =
     (case Document.url (document doc) of
        None \<Rightarrow> True
      | Some u \<Rightarrow> u = [] \<or>
          (case fetch_document env i u of
             Pending \<Rightarrow> False
           | Rejected e \<Rightarrow> True
           | Fulfilled r \<Rightarrow> \<not> ok r \<or>
               (case blob r of
                  Pending \<Rightarrow> False
                | Rejected e \<Rightarrow> True
                | Fulfilled b \<Rightarrow>
                    (case readAsDataURL b of
                       ReadError \<Rightarrow> True
                     | Load s \<Rightarrow> orElse (index (String_split CHR '','' s) 1) [] = []))))"

text \<open>The entry at position \<open>i\<close> loads, with \<open>data\<close> as its base64 text.\<close>

definition documentLoads :: "env \<Rightarrow> nat \<Rightarrow> SelectedDocument \<Rightarrow> string \<Rightarrow> bool" where
  "documentLoads env i doc data =
     (case Document.url (document doc) of
        None \<Rightarrow> False
      | Some u \<Rightarrow> u \<noteq> [] \<and>
          (case fetch_document env i u of
             Pending \<Rightarrow> False
           | Rejected e \<Rightarrow> False
           | Fulfilled r \<Rightarrow> ok r \<and>
               (case blob r of
                  Pending \<Rightarrow> False
                | Rejected e \<Rightarrow> False
                | Fulfilled b \<Rightarrow>
                    (case readAsDataURL b of
                       ReadError \<Rightarrow> False
                     | Load s \<Rightarrow> data \<noteq> [] \<and> index (String_split CHR '','' s) 1 = Some data))))"

text \<open>The time at which the promise of the entry at position \<open>i\<close> settles.\<close>

definition settles_at :: "env \<Rightarrow> nat \<Rightarrow> SelectedDocument \<Rightarrow> nat" where
  "settles_at env i doc = fst (snd (processDocument env i doc))"

text \<open>No field is \<open>undefined\<close>.\<close>

definition StatusFlags_defined :: "StatusFlags \<Rightarrow> bool" where
  "StatusFlags_defined s =
     (forReview s \<noteq> None \<and> forApproval s \<noteq> None \<and> forRecord s \<noteq> None
      \<and> forInformationOnly s \<noteq> None)"

definition SubmittalType_defined :: "SubmittalType \<Rightarrow> bool" where
  "SubmittalType_defined t =
     (tds t \<noteq> None \<and> threePartSpecs t \<noteq> None \<and> testReportIccEsr5194 t \<noteq> None
      \<and> testReportIccEsl1645 t \<noteq> None \<and> fireAssembly t \<noteq> None \<and> fireAssembly01 t \<noteq> None
      \<and> fireAssembly02 t \<noteq> None \<and> fireAssembly03 t \<noteq> None \<and> msds t \<noteq> None
      \<and> leedGuide t \<noteq> None \<and> installationGuide t \<noteq> None \<and> warranty t \<noteq> None
      \<and> samples t \<noteq> None \<and> other t \<noteq> None \<and> otherText t \<noteq> None)"

definition projectData_defined :: "ProjectFormData \<Rightarrow> bool" where
  "projectData_defined d =
     (projectName d \<noteq> None \<and> submittedTo d \<noteq> None \<and> preparedBy d \<noteq> None \<and> date d \<noteq> None
      \<and> projectNumber d \<noteq> None \<and> emailAddress d \<noteq> None \<and> phoneNumber d \<noteq> None
      \<and> product d \<noteq> None \<and> productType d \<noteq> None
      \<and> (case status d of None \<Rightarrow> False | Some s \<Rightarrow> StatusFlags_defined s)
      \<and> (case submittalType d of None \<Rightarrow> False | Some t \<Rightarrow> SubmittalType_defined t))"

subsection \<open>Sample inputs\<close>

definition sample_document :: "string \<Rightarrow> string option \<Rightarrow> bool \<Rightarrow> int \<Rightarrow> SelectedDocument" where
  "sample_document n u s k =
     \<lparr>SelectedDocument.ident = n,
      document = \<lparr>Document.ident = n, name = Some (n @ ''.pdf''), url = u, type = Some ''tds''\<rparr>,
      selected = s, order = k\<rparr>"

definition sample_heap :: "SelectedDocument list \<Rightarrow> heap" where
  "sample_heap xs = \<lparr>arrays = (\<lambda>a. [])(0 := xs), allocated = 1\<rparr>"

definition sample_form :: ProjectFormData where
  "sample_form =
     \<lparr>projectName = None, submittedTo = None, preparedBy = None, date = None,
      projectNumber = None, emailAddress = None, phoneNumber = None, product = None,
      productType = None, status = None, submittalType = None\<rparr>"

definition sample_source :: "nat \<Rightarrow> string \<Rightarrow> FileReader_outcome \<Rightarrow> response" where
  "sample_source code reason outcome =
     \<lparr>response.status = code, statusText = reason,
      blob = Fulfilled \<lparr>Blob.type = ''application/pdf'', readAsDataURL = outcome\<rparr>,
      json = Pending, text_body = Pending, arrayBuffer = Pending\<rparr>"

definition sample_reply :: "nat \<Rightarrow> string \<Rightarrow> json promise \<Rightarrow> string promise \<Rightarrow> byte list promise \<Rightarrow> response" where
  "sample_reply code reason parsed raw bytes =
     \<lparr>response.status = code, statusText = reason, blob = Pending,
      json = parsed, text_body = raw, arrayBuffer = bytes\<rparr>"

text \<open>
  The two built-ins of the sample platform, on parsed JSON whose numbers are integers that
  JavaScript prints in decimal: \<open>JSON.stringify\<close>, and the conversion to a string made by
  a template literal.
\<close>

definition show_int :: "int \<Rightarrow> string" where
  "show_int n = (if n < 0 then CHR ''-'' # show_nat (nat (- n)) else show_nat (nat n))"

definition hex_digit :: "nat \<Rightarrow> char" where
  "hex_digit n = ''0123456789abcdef'' ! n"

definition quote_char :: "char \<Rightarrow> string" where
  "quote_char c =
     (if c = CHR 0x22 then [CHR 0x5C, CHR 0x22]
      else if c = CHR 0x5C then [CHR 0x5C, CHR 0x5C]
      else if c = CHR 0x08 then [CHR 0x5C, CHR ''b'']
      else if c = CHR 0x09 then [CHR 0x5C, CHR ''t'']
      else if c = CHR 0x0A then [CHR 0x5C, CHR ''n'']
      else if c = CHR 0x0C then [CHR 0x5C, CHR ''f'']
      else if c = CHR 0x0D then [CHR 0x5C, CHR ''r'']
      else if (of_char c :: nat) < 32
      then [CHR 0x5C, CHR ''u'', CHR ''0'', CHR ''0'',
            hex_digit (of_char c div 16), hex_digit (of_char c mod 16)]
      else [c])"

definition quote :: "string \<Rightarrow> string" where
  "quote s = [CHR 0x22] @ concat (map quote_char s) @ [CHR 0x22]"

fun join :: "string \<Rightarrow> string list \<Rightarrow> string" where
  "join sep [] = []"
| "join sep [x] = x"
| "join sep (x # y # ys) = x @ sep @ join sep (y # ys)"

fun sample_stringify :: "json \<Rightarrow> string" where
  "sample_stringify JNull = ''null''"
| "sample_stringify (JBool b) = (if b then ''true'' else ''false'')"
| "sample_stringify (JNum n) = show_int n"
| "sample_stringify (JStr s) = quote s"
| "sample_stringify (JArr vs) = ''['' @ join '','' (map sample_stringify vs) @ '']''"
| "sample_stringify (JObj kvs) =
     ''{'' @ join '','' (map (\<lambda>(k, v). quote k @ '':'' @ sample_stringify v) kvs) @ ''}''"

fun sample_to_string :: "json \<Rightarrow> string" where
  "sample_to_string JNull = ''null''"
| "sample_to_string (JBool b) = (if b then ''true'' else ''false'')"
| "sample_to_string (JNum n) = show_int n"
| "sample_to_string (JStr s) = s"
| "sample_to_string (JArr vs) =
     join '','' (map (\<lambda>v. if v = JNull then [] else sample_to_string v) vs)"
| "sample_to_string (JObj kvs) = ''[object Object]''"

definition sample_env :: "(nat \<Rightarrow> string \<Rightarrow> response promise) \<Rightarrow> Document list promise \<Rightarrow> response promise \<Rightarrow> env" where
  "sample_env sources directory reply =
     \<lparr>fetch_document = sources,
      completion = (\<lambda>i. i),
      getDocumentsByProductType = (\<lambda>t. directory),
      toLocaleDateString = ''November 3, 2026'',
      fetch_worker = (\<lambda>u p. reply),
      JSON_stringify = sample_stringify,
      String_of = sample_to_string\<rparr>"

definition sample_sources :: "nat \<Rightarrow> string \<Rightarrow> response promise" where
  "sample_sources i u = Fulfilled (sample_source 200 ''OK'' (Load ''data:application/pdf;base64,JVBERi0=''))"

definition sample_selection :: "SelectedDocument list" where
  "sample_selection =
     [sample_document ''A'' (Some ''https://x/A.pdf'') True 2,
      sample_document ''C'' None False 0,
      sample_document ''B'' (Some ''https://x/B.pdf'') True 1]"

definition sample_payload :: "Document list \<Rightarrow> PacketRequest" where
  "sample_payload docs =
     buildPayload (sample_env sample_sources Pending Pending) sample_form ''structural-floor''
       [sample_document ''B'' (Some ''https://x/B.pdf'') True 1,
        sample_document ''A'' (Some ''https://x/A.pdf'') True 2]
       [fetched (sample_document ''B'' (Some ''https://x/B.pdf'') True 1) ''JVBERi0='',
        fetched (sample_document ''A'' (Some ''https://x/A.pdf'') True 2) ''JVBERi0='']
       docs"

definition sample_endpoint :: string where
  "sample_endpoint = ''https://pdf-packet-generator.maxterra-pdf-builder.workers.dev/generate-packet''"

definition sample_empty_source :: "nat \<Rightarrow> string \<Rightarrow> response promise" where
  "sample_empty_source i u = Fulfilled (sample_source 200 ''OK'' (Load ''data:application/pdf;base64,''))"

definition sample_distinct_sources :: "nat \<Rightarrow> string \<Rightarrow> response promise" where
  "sample_distinct_sources i u =
     Fulfilled (sample_source 200 ''OK''
       (Load (if u = ''https://x/A.pdf'' then ''data:application/pdf;base64,QQ==''
              else ''data:application/pdf;base64,Qg=='')))"


section \<open>Sorting\<close>

lemma insert_sorted_insort_key:
  "insert_sorted (\<lambda>a b. f a - f b) x xs = insort_key f x xs" for f :: "'a \<Rightarrow> int"
  by (induction xs) auto

lemma stable_sort_sort_key:
  "stable_sort (\<lambda>a b. f a - f b) xs = sort_key f xs" for f :: "'a \<Rightarrow> int"
proof -
  have "insert_sorted (\<lambda>a b. f a - f b) = insort_key f"
    by (intro ext) (rule insert_sorted_insort_key)
  then show ?thesis
    by (simp add: stable_sort_def sort_key_def)
qed

lemma sorted_selection_sort_key:
  "sorted_selection xs = sort_key order (filter selected xs)"
  by (simp add: sorted_selection_def stable_sort_sort_key)

lemma sorted_selection_empty:
  "sorted_selection xs = [] \<longleftrightarrow> (\<forall>d \<in> set xs. \<not> selected d)"
proof -
  have "sorted_selection xs = [] \<longleftrightarrow> length (sorted_selection xs) = 0"
    by simp
  also have "\<dots> \<longleftrightarrow> filter selected xs = []"
    by (simp add: sorted_selection_sort_key)
  also have "\<dots> \<longleftrightarrow> (\<forall>d \<in> set xs. \<not> selected d)"
    by (auto simp: filter_empty_conv)
  finally show ?thesis .
qed

lemma mset_sorted_selection: "mset (sorted_selection xs) = mset (filter selected xs)"
  by (simp add: sorted_selection_sort_key)

lemma sorted_sorted_selection: "sorted (map order (sorted_selection xs))"
  by (simp add: sorted_selection_sort_key)

lemma sorted_selection_stable:
  "filter (\<lambda>d. order d = k) (sorted_selection xs) = filter (\<lambda>d. selected d \<and> order d = k) xs"
proof -
  have "filter (\<lambda>d. order d = k) (sorted_selection xs) = filter (\<lambda>d. order d = k) (filter selected xs)"
    by (simp add: sorted_selection_sort_key sort_key_stable)
  also have "\<dots> = filter (\<lambda>d. selected d \<and> order d = k) xs"
    by (simp add: conj_commute)
  finally show ?thesis .
qed

lemma sorted_selection_rearranged:
  assumes "mset ys = mset xs" and "distinct (map order (filter selected xs))"
  shows "sorted_selection ys = sorted_selection xs"
proof -
  from assms(1) have m: "mset (filter selected ys) = mset (filter selected xs)"
    by simp
  then have "set (filter selected ys) = set (filter selected xs)"
    by (rule mset_eq_setD)
  moreover from assms(2) have "inj_on order (set (filter selected xs))"
    by (simp add: distinct_map)
  ultimately have inj: "inj_on order (set (filter selected ys))"
    by simp
  have "mset (filter selected ys) = mset (sort_key order (filter selected xs))"
    using m by (simp only: mset_sort)
  from this inj have "sort_key order (filter selected ys) = sort_key order (filter selected xs)"
    by (rule sort_key_inj_key_eq) (rule sorted_sort_key)
  then show ?thesis
    by (simp add: sorted_selection_sort_key)
qed

section \<open>The structure of a call\<close>

lemma generatePacket_try_unfold:
  "generatePacket_try env this formData h a =
     (if sorted_selection (arrays h a) = []
      then (after_selection h a, [], Rejected (Error ''No documents selected for packet generation''))
      else (case snd (fetchDocuments env (sorted_selection (arrays h a))) of
              Pending \<Rightarrow> (after_selection h a, fst (fetchDocuments env (sorted_selection (arrays h a))), Pending)
            | Rejected e \<Rightarrow> (after_selection h a, fst (fetchDocuments env (sorted_selection (arrays h a))), Rejected e)
            | Fulfilled ds \<Rightarrow>
                (after_selection h a,
                 fst (fetchDocuments env (sorted_selection (arrays h a)))
                   @ fst (sendPacket env this formData (sorted_selection (arrays h a)) ds),
                 snd (sendPacket env this formData (sorted_selection (arrays h a)) ds))))"
  by (simp add: generatePacket_try_def Array_filter_def Array_sort_def sorted_selection_def
        after_selection_def Let_def split_beta split: promise.splits)

lemma generatePacket_unfold:
  "generatePacket env this formData h a =
     (fst (generatePacket_try env this formData h a),
      fst (snd (generatePacket_try env this formData h a)),
      catch (snd (snd (generatePacket_try env this formData h a))) (\<lambda>error. Rejected (classify this error)))"
  by (simp add: generatePacket_def split_beta)

subsection \<open>One document\<close>

lemma onloadend_Load:
  "onloadend (Some s) Pending =
     (if orElse (index (String_split CHR '','' s) 1) [] = []
      then Rejected (Error ''Failed to encode document as base64'')
      else Fulfilled (orElse (index (String_split CHR '','' s) 1) []))"
  by (simp add: onloadend_def resolve_def reject_def Let_def)

lemma encode_cases:
  "encode b =
     (case readAsDataURL b of
        Load s \<Rightarrow>
          if orElse (index (String_split CHR '','' s) 1) [] = []
          then Rejected (Error ''Failed to encode document as base64'')
          else Fulfilled (orElse (index (String_split CHR '','' s) 1) [])
      | ReadError \<Rightarrow> Rejected (Error ''Failed to read document file''))"
  by (simp add: encode_def onloadend_Load split: FileReader_outcome.splits)
     (simp add: onloadend_def onerror_def reject_def)

lemma encode_Fulfilled_nonempty: "encode b = Fulfilled data \<Longrightarrow> data \<noteq> []"
  by (auto simp: encode_cases split: FileReader_outcome.splits if_splits)

lemma fetchFileData_Fulfilled_nonempty: "fetchFileData env i u = Fulfilled data \<Longrightarrow> data \<noteq> []"
  by (auto simp: fetchFileData_def await_def split: promise.splits if_splits
           dest: encode_Fulfilled_nonempty)

lemma processDocument_Fulfilled:
  assumes "snd (snd (processDocument env i doc)) = Fulfilled d"
  shows "\<exists>data. data \<noteq> [] \<and> d = fetched doc data \<and> fileData d = data"
  using assms
  by (auto simp: processDocument_def Let_def await_def catch_def fetched_def orElse_def
           split: if_splits promise.splits dest: fetchFileData_Fulfilled_nonempty)

lemma processDocument_Rejected:
  assumes "snd (snd (processDocument env i doc)) = Rejected e"
  shows "e = Error (''Failed to process document: '' @ template (Document.name (document doc)))"
  using assms
  by (auto simp: processDocument_def Let_def await_def catch_def split: if_splits promise.splits)

lemma processDocument_requests:
  "fst (processDocument env i doc) =
     (if Boolean (Document.url (document doc)) then [Fetch (orElse (Document.url (document doc)) [])] else [])"
  by (simp add: processDocument_def Let_def)

subsection \<open>Joining\<close>

lemma first_rejection_None:
  "first_rejection ps = None \<longleftrightarrow> (\<forall>t e. (t, Rejected e) \<notin> set ps)"
  by (induction ps rule: first_rejection.induct) (auto split: option.splits)

lemma first_rejection_Some:
  "first_rejection ps = Some (t, e) \<Longrightarrow> (t, Rejected e) \<in> set ps"
  by (induction ps arbitrary: t e rule: first_rejection.induct) (auto split: option.splits if_splits)

lemma all_fulfilled_Some:
  "all_fulfilled ps = Some vs \<longleftrightarrow> ps = map Fulfilled vs"
  by (induction ps arbitrary: vs rule: all_fulfilled.induct) (auto simp: Cons_eq_map_conv)

lemma Promise_all_Fulfilled:
  "Promise_all ps = Fulfilled vs \<longleftrightarrow> map snd ps = map Fulfilled vs"
proof
  assume "Promise_all ps = Fulfilled vs"
  then show "map snd ps = map Fulfilled vs"
    by (auto simp: Promise_all_def all_fulfilled_Some split: option.splits)
next
  assume *: "map snd ps = map Fulfilled vs"
  have "first_rejection ps = None"
  proof (subst first_rejection_None, intro allI notI)
    fix t e assume "(t, Rejected e) \<in> set ps"
    then have "Rejected e \<in> set (map snd ps)" by force
    with * show False by auto
  qed
  with * show "Promise_all ps = Fulfilled vs"
    by (simp add: Promise_all_def all_fulfilled_Some[THEN iffD2])
qed

lemma Promise_all_Rejected:
  "Promise_all ps = Rejected e \<Longrightarrow> \<exists>t. (t, Rejected e) \<in> set ps"
  by (auto simp: Promise_all_def split: option.splits dest: first_rejection_Some)

lemma Promise_all_Rejected_if:
  "(t, Rejected e) \<in> set ps \<Longrightarrow> \<exists>e'. Promise_all ps = Rejected e'"
  by (cases "first_rejection ps") (auto simp: Promise_all_def first_rejection_None)

lemma first_rejection_earliest:
  "first_rejection ps = Some (t, e) \<Longrightarrow> (t', Rejected e') \<in> set ps \<Longrightarrow> t \<le> t'"
proof (induction ps arbitrary: t e rule: first_rejection.induct)
  case 1
  then show ?case by simp
next
  case (2 t0 e0 ps)
  show ?case
  proof (cases "first_rejection ps")
    case None
    with "2.prems" first_rejection_None [of ps] show ?thesis
      by auto
  next
    case (Some r)
    obtain t1 e1 where r: "r = (t1, e1)"
      by (cases r)
    from "2.IH" [of t1 e1] Some r
    have later: "(t', Rejected e') \<in> set ps \<Longrightarrow> t1 \<le> t'"
      by simp
    from "2.prems" Some r later show ?thesis
      by (auto split: if_splits)
  qed
next
  case (3 t0 ps)
  then show ?case by auto
next
  case (4 t0 v ps)
  then show ?case by auto
qed

lemma Promise_all_Rejected_first:
  assumes "Promise_all ps = Rejected e"
  shows "\<exists>t. (t, Rejected e) \<in> set ps \<and> (\<forall>t' e'. (t', Rejected e') \<in> set ps \<longrightarrow> t \<le> t')"
proof -
  from assms obtain t where t: "first_rejection ps = Some (t, e)"
    by (auto simp: Promise_all_def split: option.splits)
  from first_rejection_Some [OF t] first_rejection_earliest [OF t] show ?thesis
    by blast
qed

lemma started_nth:
  "i < length S \<Longrightarrow>
     map (\<lambda>(i, doc). processDocument env i doc) (enumerate 0 S) ! i = processDocument env i (S ! i)"
  by (simp add: nth_enumerate_eq)

lemma fetchDocuments_requests:
  "fst (fetchDocuments env S) =
     concat (map (\<lambda>doc. if Boolean (Document.url (document doc))
                         then [Fetch (orElse (Document.url (document doc)) [])] else []) S)"
proof -
  have "map fst (map (\<lambda>(i, doc). processDocument env i doc) (enumerate 0 S)) =
        map (\<lambda>doc. if Boolean (Document.url (document doc))
                    then [Fetch (orElse (Document.url (document doc)) [])] else []) S"
    by (rule nth_equalityI) (simp_all add: nth_enumerate_eq processDocument_requests)
  then show ?thesis
    by (simp add: fetchDocuments_def Let_def)
qed

lemma fetchDocuments_Fulfilled:
  assumes "snd (fetchDocuments env S) = Fulfilled ds"
  shows "length ds = length S"
    and "i < length S \<Longrightarrow> snd (snd (processDocument env i (S ! i))) = Fulfilled (ds ! i)"
proof -
  let ?started = "map (\<lambda>(i, doc). processDocument env i doc) (enumerate 0 S)"
  from assms have eq: "map snd (map snd ?started) = map Fulfilled ds"
    by (simp add: fetchDocuments_def Let_def Promise_all_Fulfilled)
  from arg_cong[OF eq, of length] show len: "length ds = length S"
    by simp
  assume i: "i < length S"
  from arg_cong[OF eq, of "\<lambda>xs. xs ! i"] i len
  show "snd (snd (processDocument env i (S ! i))) = Fulfilled (ds ! i)"
    by (simp add: nth_enumerate_eq)
qed

lemma fetchDocuments_Rejected:
  assumes "snd (fetchDocuments env S) = Rejected e"
  shows "\<exists>i<length S. snd (snd (processDocument env i (S ! i))) = Rejected e"
proof -
  let ?started = "map (\<lambda>(i, doc). processDocument env i doc) (enumerate 0 S)"
  from assms obtain t where "(t, Rejected e) \<in> set (map snd ?started)"
    by (auto simp: fetchDocuments_def Let_def dest: Promise_all_Rejected)
  then obtain i where "i < length S" "snd (?started ! i) = (t, Rejected e)"
    by (auto simp: in_set_conv_nth simp del: set_map)
  then show ?thesis
    by (auto simp: nth_enumerate_eq)
qed

lemma fetchDocuments_Rejected_if:
  assumes "i < length S" "snd (snd (processDocument env i (S ! i))) = Rejected e"
  shows "\<exists>e'. snd (fetchDocuments env S) = Rejected e'"
proof -
  let ?started = "map (\<lambda>(i, doc). processDocument env i doc) (enumerate 0 S)"
  from assms have "snd (?started ! i) = (fst (snd (processDocument env i (S ! i))), Rejected e)"
    by (simp add: nth_enumerate_eq prod_eq_iff)
  moreover from assms have "snd (?started ! i) \<in> set (map snd ?started)"
    by (metis length_enumerate length_map nth_map nth_mem)
  ultimately have "(fst (snd (processDocument env i (S ! i))), Rejected e) \<in> set (map snd ?started)"
    by simp
  from Promise_all_Rejected_if[OF this] show ?thesis
    by (simp add: fetchDocuments_def Let_def)
qed

subsection \<open>Classification\<close>

lemma classify_process_error:
  "classify this (Error (''Failed to process document: '' @ x)) =
     Error ''One or more documents could not be loaded. Please verify all documents are accessible and try again.''"
  by (simp add: classify_def)

lemma classify_no_documents:
  "classify this (Error ''No documents selected for packet generation'') =
     Error ''No documents selected for packet generation''"
  by (simp add: classify_def toLowerCase_char_def)

lemma classify_empty_pdf:
  "classify this (Error ''Received empty PDF from worker'') = Error ''Received empty PDF from worker''"
  by (simp add: classify_def toLowerCase_char_def)

lemma classify_plain:
  "\<not> String_includes m ''Failed to process document'' \<Longrightarrow>
   \<not> String_includes (toLowerCase m) ''bucket'' \<Longrightarrow> classify this (Error m) = Error m"
  by (simp add: classify_def)

subsection \<open>Requests\<close>

lemma fetchDocuments_only_fetches:
  "e \<in> set (fst (fetchDocuments env S)) \<Longrightarrow> \<exists>u. e = Fetch u"
  by (auto simp: fetchDocuments_requests split: if_splits)

lemma sendPacket_unfold:
  "sendPacket env this formData S ds =
     (case getDocumentsByProductType env (orElse (productType formData) ''structural-floor'') of
        Pending \<Rightarrow>
          ([GetDocumentsByProductType (orElse (productType formData) ''structural-floor'')], Pending)
      | Fulfilled docs \<Rightarrow>
          ([GetDocumentsByProductType (orElse (productType formData) ''structural-floor''),
            Post (workerUrl this @ ''/generate-packet'')
              (buildPayload env formData (orElse (productType formData) ''structural-floor'') S ds docs)],
           await (fetch_worker env (workerUrl this @ ''/generate-packet'')
                    (buildPayload env formData (orElse (productType formData) ''structural-floor'') S ds docs))
             (handleResponse env))
      | Rejected e \<Rightarrow>
          ([GetDocumentsByProductType (orElse (productType formData) ''structural-floor''),
            Post (workerUrl this @ ''/generate-packet'')
              (buildPayload env formData (orElse (productType formData) ''structural-floor'') S ds [])],
           await (fetch_worker env (workerUrl this @ ''/generate-packet'')
                    (buildPayload env formData (orElse (productType formData) ''structural-floor'') S ds []))
             (handleResponse env)))"
  by (simp add: sendPacket_def Let_def catch_def split: promise.splits)

lemma posted_request:
  assumes "Post endpoint payload \<in> set (fst (snd (generatePacket env this formData h a)))"
  shows "\<exists>ds docs.
           sorted_selection (arrays h a) \<noteq> []
         \<and> snd (fetchDocuments env (sorted_selection (arrays h a))) = Fulfilled ds
         \<and> (getDocumentsByProductType env (orElse (productType formData) ''structural-floor'') = Fulfilled docs
            \<or> (\<exists>e. getDocumentsByProductType env (orElse (productType formData) ''structural-floor'') = Rejected e)
               \<and> docs = [])
         \<and> payload = buildPayload env formData (orElse (productType formData) ''structural-floor'')
                        (sorted_selection (arrays h a)) ds docs
         \<and> endpoint = workerUrl this @ ''/generate-packet''
         \<and> snd (snd (generatePacket env this formData h a)) =
             catch (await (fetch_worker env endpoint payload) (handleResponse env))
               (\<lambda>error. Rejected (classify this error))"
proof -
  let ?S = "sorted_selection (arrays h a)"
  let ?pt = "orElse (productType formData) ''structural-floor''"
  from assms have ne: "?S \<noteq> []"
    by (auto simp: generatePacket_unfold generatePacket_try_unfold)
  from assms ne obtain ds where ds: "snd (fetchDocuments env ?S) = Fulfilled ds"
    by (cases "snd (fetchDocuments env ?S)")
       (auto simp: generatePacket_unfold generatePacket_try_unfold dest: fetchDocuments_only_fetches)
  from assms ne ds have "Post endpoint payload \<in> set (fst (sendPacket env this formData ?S ds))"
    by (auto simp: generatePacket_unfold generatePacket_try_unfold dest: fetchDocuments_only_fetches)
  moreover have "snd (snd (generatePacket env this formData h a)) =
      catch (snd (sendPacket env this formData ?S ds)) (\<lambda>error. Rejected (classify this error))"
    using ne ds by (simp add: generatePacket_unfold generatePacket_try_unfold)
  ultimately show ?thesis
    using ne ds
    by (cases "getDocumentsByProductType env ?pt") (auto simp: sendPacket_unfold)
qed

lemma generatePacket_sends:
  assumes "sorted_selection (arrays h a) \<noteq> []"
    and "snd (fetchDocuments env (sorted_selection (arrays h a))) = Fulfilled ds"
    and "getDocumentsByProductType env (orElse (productType formData) ''structural-floor'') = Fulfilled docs
         \<or> getDocumentsByProductType env (orElse (productType formData) ''structural-floor'') = Rejected e
            \<and> docs = []"
    and "payload = buildPayload env formData (orElse (productType formData) ''structural-floor'')
                     (sorted_selection (arrays h a)) ds docs"
  shows "snd (generatePacket env this formData h a) =
           (fst (fetchDocuments env (sorted_selection (arrays h a)))
              @ [GetDocumentsByProductType (orElse (productType formData) ''structural-floor''),
                 Post (workerUrl this @ ''/generate-packet'') payload],
            catch (await (fetch_worker env (workerUrl this @ ''/generate-packet'') payload) (handleResponse env))
              (\<lambda>error. Rejected (classify this error)))"
  using assms
  by (auto simp: generatePacket_unfold generatePacket_try_unfold sendPacket_unfold)

lemma processDocument_loads:
  "snd (snd (processDocument env i doc)) = Fulfilled d \<longleftrightarrow>
     (\<exists>data. documentLoads env i doc data \<and> d = fetched doc data)"
  by (cases "Document.url (document doc)")
     (auto simp: processDocument_def documentLoads_def Let_def await_def catch_def Boolean_def
           orElse_def fetchFileData_def encode_cases
           split: promise.splits FileReader_outcome.splits option.splits if_splits)

lemma processDocument_fails:
  "(\<exists>e. snd (snd (processDocument env i doc)) = Rejected e) \<longleftrightarrow> documentFails env i doc"
  by (cases "Document.url (document doc)")
     (auto simp: processDocument_def documentFails_def Let_def await_def catch_def Boolean_def
           orElse_def fetchFileData_def encode_cases
           split: promise.splits FileReader_outcome.splits option.splits if_splits)

lemma documentLoads_nonempty: "documentLoads env i doc data \<Longrightarrow> data \<noteq> []"
  by (auto simp: documentLoads_def split: option.splits promise.splits FileReader_outcome.splits)

lemma fileData_fetched: "fileData (fetched doc data) = data"
  by (simp add: fetched_def orElse_def)

lemma fetchDocuments_loads:
  assumes "\<forall>i<length S. \<exists>data. documentLoads env i (S ! i) data"
  shows "\<exists>ds. snd (fetchDocuments env S) = Fulfilled ds"
proof -
  let ?started = "map (\<lambda>(i, doc). processDocument env i doc) (enumerate 0 S)"
  have "\<forall>i<length S. \<exists>d. snd (snd (processDocument env i (S ! i))) = Fulfilled d"
    using assms by (simp add: processDocument_loads)
  then obtain f where f: "\<forall>i<length S. snd (snd (processDocument env i (S ! i))) = Fulfilled (f i)"
    by metis
  have "map snd (map snd ?started) = map Fulfilled (map f [0..<length S])"
    by (rule nth_equalityI) (simp_all add: nth_enumerate_eq f)
  then have "snd (fetchDocuments env S) = Fulfilled (map f [0..<length S])"
    by (simp only: fetchDocuments_def Let_def snd_conv Promise_all_Fulfilled)
  then show ?thesis ..
qed

lemma buildProjectData_defined: "projectData_defined (buildProjectData env formData t)"
  by (simp add: buildProjectData_def projectData_defined_def StatusFlags_defined_def
        SubmittalType_defined_def)

lemma nullish_absent: "Option.bind r f = None \<Longrightarrow> nullish r f d = d"
  by (simp add: nullish_def)

lemma orElse_absent: "orElse None d = d"
  by (simp add: orElse_def)

lemma generatePacket_of_selection:
  assumes "sorted_selection (arrays h' a') = sorted_selection (arrays h a)"
  shows "snd (generatePacket env this formData h' a') = snd (generatePacket env this formData h a)"
  by (simp add: generatePacket_unfold generatePacket_try_unfold assms split: promise.splits)

lemma fetchDocuments_Fulfilled_iff:
  "snd (fetchDocuments env S) = Fulfilled ds \<longleftrightarrow>
     length ds = length S \<and> (\<forall>i<length S. snd (snd (processDocument env i (S ! i))) = Fulfilled (ds ! i))"
proof
  assume "snd (fetchDocuments env S) = Fulfilled ds"
  from fetchDocuments_Fulfilled [OF this]
  show "length ds = length S \<and> (\<forall>i<length S. snd (snd (processDocument env i (S ! i))) = Fulfilled (ds ! i))"
    by blast
next
  assume *: "length ds = length S \<and> (\<forall>i<length S. snd (snd (processDocument env i (S ! i))) = Fulfilled (ds ! i))"
  have "map snd (map snd (map (\<lambda>(i, doc). processDocument env i doc) (enumerate 0 S))) = map Fulfilled ds"
    using * by (intro nth_equalityI) (simp_all add: nth_enumerate_eq)
  then show "snd (fetchDocuments env S) = Fulfilled ds"
    by (simp only: fetchDocuments_def Let_def snd_conv Promise_all_Fulfilled)
qed

lemma fetchDocuments_Rejected_iff:
  "(\<exists>e. snd (fetchDocuments env S) = Rejected e) \<longleftrightarrow>
     (\<exists>i<length S. \<exists>e. snd (snd (processDocument env i (S ! i))) = Rejected e)"
  by (blast dest: fetchDocuments_Rejected fetchDocuments_Rejected_if)

lemma fetchDocuments_Rejected_classified:
  assumes "snd (fetchDocuments env S) = Rejected e"
  shows "classify this e =
           Error ''One or more documents could not be loaded. Please verify all documents are accessible and try again.''"
proof -
  from fetchDocuments_Rejected [OF assms] obtain i
    where "snd (snd (processDocument env i (S ! i))) = Rejected e"
    by blast
  from processDocument_Rejected [OF this] show ?thesis
    by (simp only: classify_process_error)
qed

lemma posted_payload:
  assumes "Post endpoint payload \<in> set (fst (snd (generatePacket env this formData h a)))"
  shows "\<exists>ds docs.
           snd (fetchDocuments env (sorted_selection (arrays h a))) = Fulfilled ds
         \<and> payload = buildPayload env formData (orElse (productType formData) ''structural-floor'')
                        (sorted_selection (arrays h a)) ds docs"
  using posted_request [OF assms] by (elim exE conjE) (intro exI conjI)

lemma documentLoads_url: "documentLoads env i doc data \<Longrightarrow> Boolean (Document.url (document doc))"
  by (auto simp: documentLoads_def Boolean_def split: option.splits)

lemma fetchDocuments_requests_loaded:
  assumes "\<forall>i<length S. \<exists>data. documentLoads env i (S ! i) data"
  shows "fst (fetchDocuments env S) = map (\<lambda>doc. Fetch (orElse (Document.url (document doc)) [])) S"
proof -
  have "Boolean (Document.url (document doc))" if "doc \<in> set S" for doc
    using that assms by (auto simp: in_set_conv_nth dest: documentLoads_url)
  then have "map (\<lambda>doc. if Boolean (Document.url (document doc))
                         then [Fetch (orElse (Document.url (document doc)) [])] else []) S =
             map (\<lambda>doc. [Fetch (orElse (Document.url (document doc)) [])]) S"
    by simp
  then show ?thesis
    by (simp only: fetchDocuments_requests) (simp add: concat_map_singleton)
qed

lemma loaded_request_posted:
  assumes "sorted_selection (arrays h a) \<noteq> []
      \<and> (\<forall>i<length (sorted_selection (arrays h a)).
            \<exists>data. documentLoads env i (sorted_selection (arrays h a) ! i) data)
      \<and> getDocumentsByProductType env (orElse (productType formData) ''structural-floor'') \<noteq> Pending"
  shows "\<exists>payload. fst (snd (generatePacket env this formData h a)) =
           map (\<lambda>doc. Fetch (orElse (Document.url (document doc)) [])) (sorted_selection (arrays h a))
           @ [GetDocumentsByProductType (orElse (productType formData) ''structural-floor''),
              Post (workerUrl this @ ''/generate-packet'') payload]"
proof -
  let ?S = "sorted_selection (arrays h a)"
  let ?pt = "orElse (productType formData) ''structural-floor''"
  have ne: "?S \<noteq> []"
    using assms by (rule conjunct1)
  have loads: "\<forall>i<length ?S. \<exists>data. documentLoads env i (?S ! i) data"
    using assms by (rule conjunct2 [THEN conjunct1])
  have settled: "getDocumentsByProductType env ?pt \<noteq> Pending"
    using assms by (rule conjunct2 [THEN conjunct2])
  from fetchDocuments_loads [OF loads] obtain ds where ds: "snd (fetchDocuments env ?S) = Fulfilled ds"
    by (elim exE)
  have sent: "fst (snd (generatePacket env this formData h a)) =
          fst (fetchDocuments env ?S)
          @ [GetDocumentsByProductType ?pt,
             Post (workerUrl this @ ''/generate-packet'') (buildPayload env formData ?pt ?S ds docs)]"
    if "getDocumentsByProductType env ?pt = Fulfilled docs
          \<or> getDocumentsByProductType env ?pt = Rejected e \<and> docs = []" for docs e
    by (simp only: generatePacket_sends [OF ne ds that refl] fst_conv)
  show ?thesis
  proof (cases "getDocumentsByProductType env ?pt")
    case Pending
    with settled show ?thesis
      by (rule notE)
  next
    case (Fulfilled docs)
    then have "getDocumentsByProductType env ?pt = Fulfilled docs
          \<or> getDocumentsByProductType env ?pt = Rejected NonError \<and> docs = []"
      by (rule disjI1)
    from sent [OF this] show ?thesis
      unfolding fetchDocuments_requests_loaded [OF loads] by (rule exI)
  next
    case (Rejected e)
    then have "getDocumentsByProductType env ?pt = Fulfilled []
          \<or> getDocumentsByProductType env ?pt = Rejected e \<and> [] = ([] :: Document list)"
      by (intro disjI2 conjI refl)
    from sent [OF this] show ?thesis
      unfolding fetchDocuments_requests_loaded [OF loads] by (rule exI)
  qed
qed

lemma posted_documents_fields:
  assumes "Post endpoint payload \<in> set (fst (snd (generatePacket env this formData h a)))"
  shows "length (documents payload) = length (sorted_selection (arrays h a))
       \<and> (\<forall>i<length (sorted_selection (arrays h a)).
             FetchedDocument.ident (documents payload ! i) =
               SelectedDocument.ident (sorted_selection (arrays h a) ! i)
           \<and> FetchedDocument.name (documents payload ! i) =
               orElse (Document.name (document (sorted_selection (arrays h a) ! i))) ''Unnamed Document''
           \<and> FetchedDocument.url (documents payload ! i) =
               orElse (Document.url (document (sorted_selection (arrays h a) ! i))) []
           \<and> FetchedDocument.type (documents payload ! i) =
               orElse (Document.type (document (sorted_selection (arrays h a) ! i))) ''other''
           \<and> documentLoads env i (sorted_selection (arrays h a) ! i) (fileData (documents payload ! i)))
       \<and> selectedDocumentNames payload =
            map (\<lambda>doc. orElse (Document.name (document doc)) ''Unnamed Document'')
              (sorted_selection (arrays h a))"
proof -
  let ?S = "sorted_selection (arrays h a)"
  from posted_payload [OF assms] obtain ds docs where
    ds: "snd (fetchDocuments env ?S) = Fulfilled ds"
    and payload: "payload = buildPayload env formData (orElse (productType formData) ''structural-floor'')
                        ?S ds docs"
    by (elim exE conjE)
  have docs: "documents payload = ds"
    by (simp add: payload buildPayload_def)
  have len: "length (documents payload) = length ?S"
    using fetchDocuments_Fulfilled(1) [OF ds] by (simp add: docs)
  have names: "selectedDocumentNames payload =
            map (\<lambda>doc. orElse (Document.name (document doc)) ''Unnamed Document'') ?S"
    by (simp add: payload buildPayload_def)
  have fields: "FetchedDocument.ident (documents payload ! i) = SelectedDocument.ident (?S ! i)
           \<and> FetchedDocument.name (documents payload ! i) =
               orElse (Document.name (document (?S ! i))) ''Unnamed Document''
           \<and> FetchedDocument.url (documents payload ! i) = orElse (Document.url (document (?S ! i))) []
           \<and> FetchedDocument.type (documents payload ! i) = orElse (Document.type (document (?S ! i))) ''other''
           \<and> documentLoads env i (?S ! i) (fileData (documents payload ! i))"
    if i: "i < length ?S" for i
  proof -
    from fetchDocuments_Fulfilled(2) [OF ds i]
    obtain data where "documentLoads env i (?S ! i) data" and "ds ! i = fetched (?S ! i) data"
      unfolding processDocument_loads by (elim exE conjE)
    then show ?thesis
      by (simp add: docs fetched_def orElse_def)
  qed
  then have "\<forall>i<length ?S.
             FetchedDocument.ident (documents payload ! i) = SelectedDocument.ident (?S ! i)
           \<and> FetchedDocument.name (documents payload ! i) =
               orElse (Document.name (document (?S ! i))) ''Unnamed Document''
           \<and> FetchedDocument.url (documents payload ! i) = orElse (Document.url (document (?S ! i))) []
           \<and> FetchedDocument.type (documents payload ! i) = orElse (Document.type (document (?S ! i))) ''other''
           \<and> documentLoads env i (?S ! i) (fileData (documents payload ! i))"
    by (intro allI impI)
  with len names show ?thesis
    by (intro conjI)
qed

lemma rearranged_call:
  assumes "mset (arrays h' a') = mset (arrays h a)
        \<and> distinct (map order (filter selected (arrays h a)))"
  shows "snd (generatePacket env this formData h' a') = snd (generatePacket env this formData h a)"
proof -
  from assms have "mset (arrays h' a') = mset (arrays h a)"
    by (rule conjunct1)
  moreover from assms have "distinct (map order (filter selected (arrays h a)))"
    by (rule conjunct2)
  ultimately have "sorted_selection (arrays h' a') = sorted_selection (arrays h a)"
    by (rule sorted_selection_rearranged)
  then show ?thesis
    by (rule generatePacket_of_selection)
qed

lemma failing_document:
  assumes "i < length (sorted_selection (arrays h a))"
    and "documentFails env i (sorted_selection (arrays h a) ! i)"
  shows "snd (generatePacket env this formData h a) =
           (fst (fetchDocuments env (sorted_selection (arrays h a))),
            Rejected (Error ''One or more documents could not be loaded. Please verify all documents are accessible and try again.''))"
proof -
  let ?S = "sorted_selection (arrays h a)"
  from assms(1) have ne: "?S \<noteq> []"
    by auto
  from assms(2) obtain e where "snd (snd (processDocument env i (?S ! i))) = Rejected e"
    using processDocument_fails by blast
  from fetchDocuments_Rejected_if [OF assms(1) this] obtain e'
    where e': "snd (fetchDocuments env ?S) = Rejected e'"
    by blast
  from ne e' show ?thesis
    by (simp add: generatePacket_unfold generatePacket_try_unfold catch_def
          fetchDocuments_Rejected_classified [OF e'])
qed

lemma fetchDocuments_Rejected_first:
  assumes "snd (fetchDocuments env S) = Rejected e"
  shows "\<exists>j<length S. snd (snd (processDocument env j (S ! j))) = Rejected e
           \<and> (\<forall>k<length S. (\<exists>e'. snd (snd (processDocument env k (S ! k))) = Rejected e') \<longrightarrow>
                 fst (snd (processDocument env j (S ! j))) \<le> fst (snd (processDocument env k (S ! k))))"
proof -
  let ?started = "map (\<lambda>(i, doc). processDocument env i doc) (enumerate 0 S)"
  from assms have "Promise_all (map snd ?started) = Rejected e"
    by (simp add: fetchDocuments_def Let_def)
  from Promise_all_Rejected_first [OF this] obtain t
    where t: "(t, Rejected e) \<in> set (map snd ?started)"
      and first: "\<And>t' e'. (t', Rejected e') \<in> set (map snd ?started) \<Longrightarrow> t \<le> t'"
    by blast
  from t obtain j where j: "j < length S" "snd (?started ! j) = (t, Rejected e)"
    by (auto simp: in_set_conv_nth simp del: set_map)
  then have pj: "snd (processDocument env j (S ! j)) = (t, Rejected e)"
    by (simp add: nth_enumerate_eq)
  have "fst (snd (processDocument env j (S ! j))) \<le> fst (snd (processDocument env k (S ! k)))"
    if k: "k < length S" and rej: "snd (snd (processDocument env k (S ! k))) = Rejected e'" for k e'
  proof -
    from k have "snd (?started ! k) \<in> set (map snd ?started)"
      by (metis length_enumerate length_map nth_map nth_mem)
    moreover from k rej have "snd (?started ! k) = (fst (snd (processDocument env k (S ! k))), Rejected e')"
      by (simp add: nth_enumerate_eq prod_eq_iff)
    ultimately have "(fst (snd (processDocument env k (S ! k))), Rejected e') \<in> set (map snd ?started)"
      by simp
    from first [OF this] pj show ?thesis
      by simp
  qed
  with j(1) pj show ?thesis
    by (intro exI [of _ j]) auto
qed

lemma settle_time:
  "settles_at env i doc =
     (if Boolean (Document.url (document doc)) then Suc (completion env i) else 0)"
  by (simp add: settles_at_def processDocument_def Let_def)

lemma first_failure_named:
  assumes "snd (fetchDocuments env S) = Rejected e"
  shows "\<exists>j<length S. documentFails env j (S ! j)
           \<and> (\<forall>k<length S. documentFails env k (S ! k) \<longrightarrow>
                 settles_at env j (S ! j) \<le> settles_at env k (S ! k))
           \<and> e = Error (''Failed to process document: '' @ template (Document.name (document (S ! j))))"
proof -
  from fetchDocuments_Rejected_first [OF assms] obtain j
    where j: "j < length S" "snd (snd (processDocument env j (S ! j))) = Rejected e"
      and first: "\<forall>k<length S. (\<exists>e'. snd (snd (processDocument env k (S ! k))) = Rejected e') \<longrightarrow>
                 fst (snd (processDocument env j (S ! j))) \<le> fst (snd (processDocument env k (S ! k)))"
    by blast
  from j(2) have "documentFails env j (S ! j)"
    using processDocument_fails by blast
  moreover note processDocument_Rejected [OF j(2)]
  moreover from first have "\<forall>k<length S. documentFails env k (S ! k) \<longrightarrow>
                 settles_at env j (S ! j) \<le> settles_at env k (S ! k)"
    by (simp add: processDocument_fails settles_at_def)
  ultimately show ?thesis
    using j(1) by blast
qed

subsection \<open>Completion times\<close>

lemma processDocument_completion:
  "snd (snd (processDocument (env\<lparr>completion := c\<rparr>) i doc)) = snd (snd (processDocument env i doc))"
  by (simp add: processDocument_def Let_def fetchFileData_def)

lemma fetchDocuments_requests_completion:
  "fst (fetchDocuments (env\<lparr>completion := c\<rparr>) S) = fst (fetchDocuments env S)"
  by (simp add: fetchDocuments_requests)

lemma buildPayload_completion:
  "buildPayload (env\<lparr>completion := c\<rparr>) formData t S ds docs = buildPayload env formData t S ds docs"
  by (simp add: buildPayload_def buildProjectData_def)

lemma handleResponse_completion:
  "handleResponse (env\<lparr>completion := c\<rparr>) = handleResponse env"
proof -
  have "errorDetail (env\<lparr>completion := c\<rparr>) r = errorDetail env r" for r
    by (simp add: errorDetail_def cong: sum.case_cong option.case_cong if_cong)
  then show ?thesis
    by (intro ext) (simp add: handleResponse_def)
qed

lemma sendPacket_completion:
  "sendPacket (env\<lparr>completion := c\<rparr>) this formData S ds = sendPacket env this formData S ds"
  by (simp add: sendPacket_unfold buildPayload_completion handleResponse_completion
        cong: promise.case_cong)

lemma generatePacket_completion:
  "generatePacket (env\<lparr>completion := c\<rparr>) this formData h a = generatePacket env this formData h a"
proof -
  let ?env' = "env\<lparr>completion := c\<rparr>"
  let ?S = "sorted_selection (arrays h a)"
  have F: "snd (fetchDocuments ?env' ?S) = Fulfilled ds \<longleftrightarrow> snd (fetchDocuments env ?S) = Fulfilled ds" for ds
    by (simp add: fetchDocuments_Fulfilled_iff processDocument_completion)
  have R: "(\<exists>e. snd (fetchDocuments ?env' ?S) = Rejected e) \<longleftrightarrow> (\<exists>e. snd (fetchDocuments env ?S) = Rejected e)"
    by (simp add: fetchDocuments_Rejected_iff processDocument_completion)
  show ?thesis
  proof (cases "snd (fetchDocuments env ?S)")
    case Pending
    with F R have "snd (fetchDocuments ?env' ?S) = Pending"
      by (cases "snd (fetchDocuments ?env' ?S)") auto
    with Pending show ?thesis
      by (simp add: generatePacket_unfold generatePacket_try_unfold fetchDocuments_requests_completion)
  next
    case (Fulfilled ds)
    with F have "snd (fetchDocuments ?env' ?S) = Fulfilled ds"
      by simp
    with Fulfilled show ?thesis
      by (simp add: generatePacket_unfold generatePacket_try_unfold fetchDocuments_requests_completion
            sendPacket_completion)
  next
    case (Rejected e)
    with R obtain e' where e': "snd (fetchDocuments ?env' ?S) = Rejected e'"
      by blast
    from Rejected e' show ?thesis
      by (simp add: generatePacket_unfold generatePacket_try_unfold fetchDocuments_requests_completion
            catch_def fetchDocuments_Rejected_classified [OF Rejected]
            fetchDocuments_Rejected_classified [OF e'])
  qed
qed

subsection \<open>A rejected request\<close>





section \<open>The sample call\<close>

lemma sample_sorted:
  "sorted_selection (arrays (sample_heap sample_selection) 0) =
     [sample_document ''B'' (Some ''https://x/B.pdf'') True 1,
      sample_document ''A'' (Some ''https://x/A.pdf'') True 2]"
  by (simp add: sorted_selection_def stable_sort_def sample_heap_def sample_selection_def
        sample_document_def)

lemma sample_loads:
  "documentLoads (sample_env sample_sources directory reply) i
     (sample_document n (Some (c # cs)) s k) ''JVBERi0=''"
  by (simp add: documentLoads_def sample_env_def sample_sources_def sample_source_def
        sample_document_def ok_def)

lemma sample_fetched:
  "snd (fetchDocuments (sample_env sample_sources directory reply)
          [sample_document ''B'' (Some ''https://x/B.pdf'') True 1,
           sample_document ''A'' (Some ''https://x/A.pdf'') True 2]) =
     Fulfilled [fetched (sample_document ''B'' (Some ''https://x/B.pdf'') True 1) ''JVBERi0='',
                fetched (sample_document ''A'' (Some ''https://x/A.pdf'') True 2) ''JVBERi0='']"
proof -
  have "snd (snd (processDocument (sample_env sample_sources directory reply) i
                    (sample_document n (Some (c # cs)) s k))) =
          Fulfilled (fetched (sample_document n (Some (c # cs)) s k) ''JVBERi0='')" for i n c cs s k
    by (rule processDocument_loads [THEN iffD2]) (blast intro: sample_loads)
  then show ?thesis
    by (simp add: fetchDocuments_def Let_def enumerate_eq_zip upt_rec Promise_all_Fulfilled)
qed

lemma sample_run:
  assumes "directory = Fulfilled docs \<or> directory = Rejected e \<and> docs = []"
  shows "snd (generatePacket (sample_env sample_sources directory reply) (constructor None) sample_form
                (sample_heap sample_selection) 0) =
           ([Fetch ''https://x/B.pdf'', Fetch ''https://x/A.pdf'',
             GetDocumentsByProductType ''structural-floor'', Post sample_endpoint (sample_payload docs)],
            catch (await reply (handleResponse (sample_env sample_sources directory reply)))
              (\<lambda>error. Rejected (classify (constructor None) error)))"
proof -
  let ?env = "sample_env sample_sources directory reply"
  have pt: "orElse (productType sample_form) ''structural-floor'' = ''structural-floor''"
    by (simp add: sample_form_def orElse_def)
  have dir: "getDocumentsByProductType ?env (orElse (productType sample_form) ''structural-floor'') = Fulfilled docs
         \<or> getDocumentsByProductType ?env (orElse (productType sample_form) ''structural-floor'') = Rejected e
            \<and> docs = []"
    using assms by (simp add: sample_env_def)
  have payload: "sample_payload docs =
      buildPayload ?env sample_form (orElse (productType sample_form) ''structural-floor'')
        (sorted_selection (arrays (sample_heap sample_selection) 0))
        [fetched (sample_document ''B'' (Some ''https://x/B.pdf'') True 1) ''JVBERi0='',
         fetched (sample_document ''A'' (Some ''https://x/A.pdf'') True 2) ''JVBERi0='']
        docs"
    by (simp add: sample_payload_def pt sample_sorted buildPayload_def buildProjectData_def sample_env_def)
  have ne: "sorted_selection (arrays (sample_heap sample_selection) 0) \<noteq> []"
    by (simp add: sample_sorted)
  have fetched: "snd (fetchDocuments ?env (sorted_selection (arrays (sample_heap sample_selection) 0))) =
      Fulfilled [fetched (sample_document ''B'' (Some ''https://x/B.pdf'') True 1) ''JVBERi0='',
         fetched (sample_document ''A'' (Some ''https://x/A.pdf'') True 2) ''JVBERi0='']"
    by (simp add: sample_sorted sample_fetched)
  have requests: "fst (fetchDocuments ?env (sorted_selection (arrays (sample_heap sample_selection) 0))) =
      [Fetch ''https://x/B.pdf'', Fetch ''https://x/A.pdf'']"
    by (simp add: sample_sorted fetchDocuments_requests sample_document_def Boolean_def orElse_def)
  have endpoint: "workerUrl (constructor None) @ ''/generate-packet'' = sample_endpoint"
    by (simp add: constructor_def orElse_def sample_endpoint_def)
  have reply: "fetch_worker ?env sample_endpoint (sample_payload docs) = reply"
    by (simp add: sample_env_def)
  from generatePacket_sends [OF ne fetched dir payload, of "constructor None"]
  show ?thesis
    by (simp add: requests endpoint reply pt)
qed

lemma sample_missing_url:
  "documentFails env 0 (sorted_selection (arrays (sample_heap [sample_document ''A'' None True 1]) 0) ! 0)"
  by (simp add: sorted_selection_def stable_sort_def sample_heap_def sample_document_def documentFails_def)

lemma sample_distinct_loads:
  "documentLoads (sample_env sample_distinct_sources directory reply) i
     (sample_document n (Some u) s k) data \<longleftrightarrow>
   u \<noteq> [] \<and> data = (if u = ''https://x/A.pdf'' then ''QQ=='' else ''Qg=='')"
  by (auto simp: documentLoads_def sample_env_def sample_distinct_sources_def sample_source_def
        sample_document_def ok_def)

lemma sample_distinct_loads_some:
  "\<exists>data. documentLoads (sample_env sample_distinct_sources directory reply) i
     (sample_document n (Some (c # cs)) s k) data"
  by (simp add: sample_distinct_loads)




section \<open>Properties of \<open>generatePacket\<close>\<close>

text \<open>
  C1. When every entry of the sorted selection loads and the directory lookup settles, the
  call fetches the entries in sorted order, looks the directory up and posts one request.
  In a request that is posted, \<open>documents\<close> has one element for each entry of the
  sorted selection, at the same position, with that entry's \<open>id\<close>, its name, URL and
  type (or their fallbacks) and the base64 text loaded for it, and
  \<open>selectedDocumentNames\<close> holds the names in the same order. The sorted selection
  holds exactly the entries with \<open>selected\<close> set, in ascending \<open>order\<close>, and entries
  of equal \<open>order\<close> keep the relative positions they have in the input array. The
  outcome of the call does not depend on the times at which the fetches complete, and when
  the selected entries have distinct \<open>order\<close> values it does not depend on how the input
  array is arranged.
\<close>

theorem documents_in_order:
  "(sorted_selection (arrays h selectedDocuments) \<noteq> []
      \<and> (\<forall>i<length (sorted_selection (arrays h selectedDocuments)).
            \<exists>data. documentLoads env i (sorted_selection (arrays h selectedDocuments) ! i) data)
      \<and> getDocumentsByProductType env (orElse (productType formData) ''structural-floor'') \<noteq> Pending \<longrightarrow>
      (\<exists>payload. fst (snd (generatePacket env this formData h selectedDocuments)) =
         map (\<lambda>doc. Fetch (orElse (Document.url (document doc)) []))
           (sorted_selection (arrays h selectedDocuments))
         @ [GetDocumentsByProductType (orElse (productType formData) ''structural-floor''),
            Post (workerUrl this @ ''/generate-packet'') payload]))
   \<and> (\<forall>endpoint payload.
        Post endpoint payload \<in> set (fst (snd (generatePacket env this formData h selectedDocuments))) \<longrightarrow>
          length (documents payload) = length (sorted_selection (arrays h selectedDocuments))
        \<and> (\<forall>i<length (sorted_selection (arrays h selectedDocuments)).
              FetchedDocument.ident (documents payload ! i) =
                SelectedDocument.ident (sorted_selection (arrays h selectedDocuments) ! i)
            \<and> FetchedDocument.name (documents payload ! i) =
                orElse (Document.name (document (sorted_selection (arrays h selectedDocuments) ! i)))
                  ''Unnamed Document''
            \<and> FetchedDocument.url (documents payload ! i) =
                orElse (Document.url (document (sorted_selection (arrays h selectedDocuments) ! i))) []
            \<and> FetchedDocument.type (documents payload ! i) =
                orElse (Document.type (document (sorted_selection (arrays h selectedDocuments) ! i))) ''other''
            \<and> documentLoads env i (sorted_selection (arrays h selectedDocuments) ! i)
                (fileData (documents payload ! i)))
        \<and> selectedDocumentNames payload =
            map (\<lambda>doc. orElse (Document.name (document doc)) ''Unnamed Document'')
              (sorted_selection (arrays h selectedDocuments)))
   \<and> mset (sorted_selection (arrays h selectedDocuments)) = mset (filter selected (arrays h selectedDocuments))
   \<and> sorted (map order (sorted_selection (arrays h selectedDocuments)))
   \<and> (\<forall>k. filter (\<lambda>d. order d = k) (sorted_selection (arrays h selectedDocuments)) =
          filter (\<lambda>d. selected d \<and> order d = k) (arrays h selectedDocuments))
   \<and> (\<forall>c. generatePacket (env\<lparr>completion := c\<rparr>) this formData h selectedDocuments =
          generatePacket env this formData h selectedDocuments)
   \<and> (\<forall>h' selectedDocuments'.
        mset (arrays h' selectedDocuments') = mset (arrays h selectedDocuments)
        \<and> distinct (map order (filter selected (arrays h selectedDocuments))) \<longrightarrow>
          snd (generatePacket env this formData h' selectedDocuments') =
          snd (generatePacket env this formData h selectedDocuments))"
proof -
  have "sorted_selection (arrays h selectedDocuments) \<noteq> []
      \<and> (\<forall>i<length (sorted_selection (arrays h selectedDocuments)).
            \<exists>data. documentLoads env i (sorted_selection (arrays h selectedDocuments) ! i) data)
      \<and> getDocumentsByProductType env (orElse (productType formData) ''structural-floor'') \<noteq> Pending \<longrightarrow>
      (\<exists>payload. fst (snd (generatePacket env this formData h selectedDocuments)) =
         map (\<lambda>doc. Fetch (orElse (Document.url (document doc)) []))
           (sorted_selection (arrays h selectedDocuments))
         @ [GetDocumentsByProductType (orElse (productType formData) ''structural-floor''),
            Post (workerUrl this @ ''/generate-packet'') payload])"
    by (intro impI) (rule loaded_request_posted)
  moreover have "\<forall>endpoint payload.
        Post endpoint payload \<in> set (fst (snd (generatePacket env this formData h selectedDocuments))) \<longrightarrow>
          length (documents payload) = length (sorted_selection (arrays h selectedDocuments))
        \<and> (\<forall>i<length (sorted_selection (arrays h selectedDocuments)).
              FetchedDocument.ident (documents payload ! i) =
                SelectedDocument.ident (sorted_selection (arrays h selectedDocuments) ! i)
            \<and> FetchedDocument.name (documents payload ! i) =
                orElse (Document.name (document (sorted_selection (arrays h selectedDocuments) ! i)))
                  ''Unnamed Document''
            \<and> FetchedDocument.url (documents payload ! i) =
                orElse (Document.url (document (sorted_selection (arrays h selectedDocuments) ! i))) []
            \<and> FetchedDocument.type (documents payload ! i) =
                orElse (Document.type (document (sorted_selection (arrays h selectedDocuments) ! i))) ''other''
            \<and> documentLoads env i (sorted_selection (arrays h selectedDocuments) ! i)
                (fileData (documents payload ! i)))
        \<and> selectedDocumentNames payload =
            map (\<lambda>doc. orElse (Document.name (document doc)) ''Unnamed Document'')
              (sorted_selection (arrays h selectedDocuments))"
    by (intro allI impI) (rule posted_documents_fields)
  moreover have "\<forall>k. filter (\<lambda>d. order d = k) (sorted_selection (arrays h selectedDocuments)) =
          filter (\<lambda>d. selected d \<and> order d = k) (arrays h selectedDocuments)"
    by (intro allI) (rule sorted_selection_stable)
  moreover have "\<forall>c. generatePacket (env\<lparr>completion := c\<rparr>) this formData h selectedDocuments =
          generatePacket env this formData h selectedDocuments"
    by (intro allI) (rule generatePacket_completion)
  moreover have "\<forall>h' selectedDocuments'.
        mset (arrays h' selectedDocuments') = mset (arrays h selectedDocuments)
        \<and> distinct (map order (filter selected (arrays h selectedDocuments))) \<longrightarrow>
          snd (generatePacket env this formData h' selectedDocuments') =
          snd (generatePacket env this formData h selectedDocuments)"
    by (intro allI impI) (rule rearranged_call)
  moreover note mset_sorted_selection [of "arrays h selectedDocuments"]
    sorted_sorted_selection [of "arrays h selectedDocuments"]
  ultimately show ?thesis
    by (intro conjI)
qed

theorem documents_in_order_witness:
  "(\<exists>payload.
      fst (snd (generatePacket (sample_env sample_distinct_sources (Fulfilled []) Pending)
                  (constructor None) sample_form (sample_heap sample_selection) 0)) =
        [Fetch ''https://x/B.pdf'', Fetch ''https://x/A.pdf'',
         GetDocumentsByProductType ''structural-floor'', Post sample_endpoint payload]
      \<and> length (documents payload) = 2
      \<and> FetchedDocument.ident (documents payload ! 0) = ''B''
      \<and> FetchedDocument.name (documents payload ! 0) = ''B.pdf''
      \<and> FetchedDocument.url (documents payload ! 0) = ''https://x/B.pdf''
      \<and> FetchedDocument.type (documents payload ! 0) = ''tds''
      \<and> fileData (documents payload ! 0) = ''Qg==''
      \<and> FetchedDocument.ident (documents payload ! 1) = ''A''
      \<and> FetchedDocument.name (documents payload ! 1) = ''A.pdf''
      \<and> FetchedDocument.url (documents payload ! 1) = ''https://x/A.pdf''
      \<and> FetchedDocument.type (documents payload ! 1) = ''tds''
      \<and> fileData (documents payload ! 1) = ''QQ==''
      \<and> selectedDocumentNames payload = [''B.pdf'', ''A.pdf''])
   \<and> snd (generatePacket (sample_env sample_distinct_sources (Fulfilled []) Pending)
            (constructor None) sample_form (sample_heap (rev sample_selection)) 0) =
      snd (generatePacket (sample_env sample_distinct_sources (Fulfilled []) Pending)
            (constructor None) sample_form (sample_heap sample_selection) 0)"
proof -
  let ?env = "sample_env sample_distinct_sources (Fulfilled []) Pending"
  let ?S = "sorted_selection (arrays (sample_heap sample_selection) 0)"
  let ?call = "generatePacket ?env (constructor None) sample_form (sample_heap sample_selection) 0"
  note T = documents_in_order [where env = ?env and this = "constructor None" and formData = sample_form
      and h = "sample_heap sample_selection" and selectedDocuments = 0]
  have loaded: "?S \<noteq> []
      \<and> (\<forall>i<length ?S. \<exists>data. documentLoads ?env i (?S ! i) data)
      \<and> getDocumentsByProductType ?env (orElse (productType sample_form) ''structural-floor'') \<noteq> Pending"
  proof (intro conjI)
    show "?S \<noteq> []"
      by (simp add: sample_sorted)
    show "\<forall>i<length ?S. \<exists>data. documentLoads ?env i (?S ! i) data"
      by (simp add: sample_sorted less_Suc_eq sample_distinct_loads_some)
    show "getDocumentsByProductType ?env (orElse (productType sample_form) ''structural-floor'') \<noteq> Pending"
      by (simp add: sample_env_def)
  qed
  from T [THEN conjunct1, rule_format, OF loaded] obtain payload where
    requests: "fst (snd ?call) =
         map (\<lambda>doc. Fetch (orElse (Document.url (document doc)) [])) ?S
         @ [GetDocumentsByProductType (orElse (productType sample_form) ''structural-floor''),
            Post (workerUrl (constructor None) @ ''/generate-packet'') payload]"
    by (elim exE)
  then have posted: "Post (workerUrl (constructor None) @ ''/generate-packet'') payload \<in> set (fst (snd ?call))"
    by simp
  note fields = T [THEN conjunct2, THEN conjunct1, rule_format, OF posted]
  have requests': "fst (snd ?call) =
        [Fetch ''https://x/B.pdf'', Fetch ''https://x/A.pdf'',
         GetDocumentsByProductType ''structural-floor'', Post sample_endpoint payload]"
    unfolding requests
    by (simp add: sample_sorted sample_document_def orElse_def sample_form_def constructor_def
          sample_endpoint_def)
  have len: "length (documents payload) = 2"
    using fields [THEN conjunct1] by (simp add: sample_sorted)
  have names: "selectedDocumentNames payload = [''B.pdf'', ''A.pdf'']"
    using fields [THEN conjunct2, THEN conjunct2]
    by (simp add: sample_sorted sample_document_def orElse_def)
  have first: "FetchedDocument.ident (documents payload ! 0) = ''B''
      \<and> FetchedDocument.name (documents payload ! 0) = ''B.pdf''
      \<and> FetchedDocument.url (documents payload ! 0) = ''https://x/B.pdf''
      \<and> FetchedDocument.type (documents payload ! 0) = ''tds''
      \<and> fileData (documents payload ! 0) = ''Qg==''"
    using fields [THEN conjunct2, THEN conjunct1, rule_format, of 0]
    by (simp add: sample_sorted sample_distinct_loads) (simp add: sample_document_def orElse_def)
  have second: "FetchedDocument.ident (documents payload ! 1) = ''A''
      \<and> FetchedDocument.name (documents payload ! 1) = ''A.pdf''
      \<and> FetchedDocument.url (documents payload ! 1) = ''https://x/A.pdf''
      \<and> FetchedDocument.type (documents payload ! 1) = ''tds''
      \<and> fileData (documents payload ! 1) = ''QQ==''"
    using fields [THEN conjunct2, THEN conjunct1, rule_format, of 1]
    by (simp add: sample_sorted sample_distinct_loads) (simp add: sample_document_def orElse_def)
  have rearranged:
    "mset (arrays (sample_heap (rev sample_selection)) 0) = mset (arrays (sample_heap sample_selection) 0)
     \<and> distinct (map order (filter selected (arrays (sample_heap sample_selection) 0)))"
    by (simp add: sample_heap_def sample_selection_def sample_document_def)
  note same = T [THEN conjunct2, THEN conjunct2, THEN conjunct2, THEN conjunct2, THEN conjunct2,
      THEN conjunct2, rule_format, OF rearranged]
  from requests' len first second names
  have "\<exists>payload.
      fst (snd ?call) =
        [Fetch ''https://x/B.pdf'', Fetch ''https://x/A.pdf'',
         GetDocumentsByProductType ''structural-floor'', Post sample_endpoint payload]
      \<and> length (documents payload) = 2
      \<and> FetchedDocument.ident (documents payload ! 0) = ''B''
      \<and> FetchedDocument.name (documents payload ! 0) = ''B.pdf''
      \<and> FetchedDocument.url (documents payload ! 0) = ''https://x/B.pdf''
      \<and> FetchedDocument.type (documents payload ! 0) = ''tds''
      \<and> fileData (documents payload ! 0) = ''Qg==''
      \<and> FetchedDocument.ident (documents payload ! 1) = ''A''
      \<and> FetchedDocument.name (documents payload ! 1) = ''A.pdf''
      \<and> FetchedDocument.url (documents payload ! 1) = ''https://x/A.pdf''
      \<and> FetchedDocument.type (documents payload ! 1) = ''tds''
      \<and> fileData (documents payload ! 1) = ''QQ==''
      \<and> selectedDocumentNames payload = [''B.pdf'', ''A.pdf'']"
    by (intro exI [of _ payload]) (elim conjE, intro conjI)
  with same show ?thesis
    by (rule conjI [rotated])
qed

text \<open>
  C2. In the request that is sent, no field of \<open>projectData\<close> is undefined, and each
  field absent from the input has its default: \<open>Untitled Project\<close> for the project name,
  \<open>N/A\<close> for recipient, preparer, project number, email address and phone number, the
  current long-form date, \<open>3/4-in (20mm)\<close> for the product, \<open>structural-floor\<close> for the
  product type, \<open>false\<close> for every flag of \<open>status\<close> and \<open>submittalType\<close>, and the
  empty string for \<open>otherText\<close>.
\<close>

theorem projectData_defaults:
  assumes "Post endpoint payload \<in> set (fst (snd (generatePacket env this formData h selectedDocuments)))"
  shows "projectData_defined (projectData payload)
    \<and> (projectName formData = None \<longrightarrow> projectName (projectData payload) = Some ''Untitled Project'')
    \<and> (submittedTo formData = None \<longrightarrow> submittedTo (projectData payload) = Some ''N/A'')
    \<and> (preparedBy formData = None \<longrightarrow> preparedBy (projectData payload) = Some ''N/A'')
    \<and> (projectNumber formData = None \<longrightarrow> projectNumber (projectData payload) = Some ''N/A'')
    \<and> (emailAddress formData = None \<longrightarrow> emailAddress (projectData payload) = Some ''N/A'')
    \<and> (phoneNumber formData = None \<longrightarrow> phoneNumber (projectData payload) = Some ''N/A'')
    \<and> (date formData = None \<longrightarrow> date (projectData payload) = Some (toLocaleDateString env))
    \<and> (product formData = None \<longrightarrow> product (projectData payload) = Some ''3/4-in (20mm)'')
    \<and> (productType formData = None \<longrightarrow> productType (projectData payload) = Some ''structural-floor'')
    \<and> (\<forall>flag \<in> {forReview, forApproval, forRecord, forInformationOnly}.
          Option.bind (status formData) flag = None \<longrightarrow>
          Option.bind (status (projectData payload)) flag = Some False)
    \<and> (\<forall>flag \<in> {tds, threePartSpecs, testReportIccEsr5194, testReportIccEsl1645, fireAssembly,
                   fireAssembly01, fireAssembly02, fireAssembly03, msds, leedGuide,
                   installationGuide, warranty, samples, other}.
          Option.bind (submittalType formData) flag = None \<longrightarrow>
          Option.bind (submittalType (projectData payload)) flag = Some False)
    \<and> (Option.bind (submittalType formData) otherText = None \<longrightarrow>
          Option.bind (submittalType (projectData payload)) otherText = Some [])"
proof -
  from posted_request [OF assms]
  have pd: "projectData payload =
              buildProjectData env formData (orElse (productType formData) ''structural-floor'')"
    by (auto simp: buildPayload_def)
  have "projectData_defined (projectData payload)"
    by (simp add: pd buildProjectData_defined)
  moreover have "projectName formData = None \<longrightarrow> projectName (projectData payload) = Some ''Untitled Project''"
    and "submittedTo formData = None \<longrightarrow> submittedTo (projectData payload) = Some ''N/A''"
    and "preparedBy formData = None \<longrightarrow> preparedBy (projectData payload) = Some ''N/A''"
    and "projectNumber formData = None \<longrightarrow> projectNumber (projectData payload) = Some ''N/A''"
    and "emailAddress formData = None \<longrightarrow> emailAddress (projectData payload) = Some ''N/A''"
    and "phoneNumber formData = None \<longrightarrow> phoneNumber (projectData payload) = Some ''N/A''"
    and "date formData = None \<longrightarrow> date (projectData payload) = Some (toLocaleDateString env)"
    and "product formData = None \<longrightarrow> product (projectData payload) = Some ''3/4-in (20mm)''"
    and "productType formData = None \<longrightarrow> productType (projectData payload) = Some ''structural-floor''"
    by (simp_all add: pd buildProjectData_def orElse_absent)
  moreover have "\<forall>flag \<in> {forReview, forApproval, forRecord, forInformationOnly}.
          Option.bind (status formData) flag = None \<longrightarrow>
          Option.bind (status (projectData payload)) flag = Some False"
    by (simp add: pd buildProjectData_def nullish_absent)
  moreover have "\<forall>flag \<in> {tds, threePartSpecs, testReportIccEsr5194, testReportIccEsl1645, fireAssembly,
                   fireAssembly01, fireAssembly02, fireAssembly03, msds, leedGuide,
                   installationGuide, warranty, samples, other}.
          Option.bind (submittalType formData) flag = None \<longrightarrow>
          Option.bind (submittalType (projectData payload)) flag = Some False"
    by (simp add: pd buildProjectData_def nullish_absent)
  moreover have "Option.bind (submittalType formData) otherText = None \<longrightarrow>
          Option.bind (submittalType (projectData payload)) otherText = Some []"
    by (simp add: pd buildProjectData_def orElse_absent)
  ultimately show ?thesis
    by blast
qed

theorem projectData_defaults_witness:
  "projectData_defined (projectData (sample_payload []))
   \<and> projectName (projectData (sample_payload [])) = Some ''Untitled Project''
   \<and> submittedTo (projectData (sample_payload [])) = Some ''N/A''
   \<and> date (projectData (sample_payload [])) = Some ''November 3, 2026''
   \<and> product (projectData (sample_payload [])) = Some ''3/4-in (20mm)''
   \<and> productType (projectData (sample_payload [])) = Some ''structural-floor''
   \<and> Option.bind (status (projectData (sample_payload []))) forRecord = Some False
   \<and> Option.bind (submittalType (projectData (sample_payload []))) warranty = Some False
   \<and> Option.bind (submittalType (projectData (sample_payload []))) otherText = Some []"
proof -
  have "Post sample_endpoint (sample_payload []) \<in>
          set (fst (snd (generatePacket (sample_env sample_sources (Fulfilled []) Pending) (constructor None)
                 sample_form (sample_heap sample_selection) 0)))"
    by (simp add: sample_run [of _ "[]"])
  from projectData_defaults [OF this] show ?thesis
    by (simp add: sample_form_def sample_env_def)
qed

text \<open>
  C3. When no entry of the selection has \<open>selected\<close> set, the call fails with the error
  \<open>No documents selected for packet generation\<close>, and it has issued no network request:
  no document fetch, no directory lookup and no POST to the rendering service.
\<close>

theorem no_documents_selected:
  assumes "\<forall>d \<in> set (arrays h selectedDocuments). \<not> selected d"
  shows "snd (generatePacket env this formData h selectedDocuments) =
           ([], Rejected (Error ''No documents selected for packet generation''))"
proof -
  from assms have "sorted_selection (arrays h selectedDocuments) = []"
    by (simp add: sorted_selection_empty)
  then show ?thesis
    by (simp add: generatePacket_unfold generatePacket_try_unfold catch_def classify_no_documents)
qed

theorem no_documents_selected_witness:
  "\<not> selected (sample_document ''A'' (Some ''https://x/A.pdf'') False 1)
   \<and> snd (generatePacket (sample_env sample_sources (Fulfilled []) Pending) (constructor None) sample_form
            (sample_heap [sample_document ''A'' (Some ''https://x/A.pdf'') False 1]) 0) =
       ([], Rejected (Error ''No documents selected for packet generation''))"
proof -
  have unselected:
    "\<forall>d \<in> set (arrays (sample_heap [sample_document ''A'' (Some ''https://x/A.pdf'') False 1]) 0). \<not> selected d"
    by (simp add: sample_heap_def sample_document_def)
  have "\<not> selected (sample_document ''A'' (Some ''https://x/A.pdf'') False 1)"
    by (simp add: sample_document_def)
  with no_documents_selected [OF unselected] show ?thesis
    by simp
qed

text \<open>
  C4, as amended. When some entry of the sorted selection cannot be loaded, the call fails
  with the general error \<open>One or more documents could not be loaded ...\<close>, which the
  \<open>catch\<close> block puts in place of the error of the joined fetches; only document
  fetches have been issued, so neither the directory lookup nor the POST; and the error of
  the joined fetches, the one that is replaced, names the entry that cannot be loaded whose
  promise settles first.
\<close>

theorem failing_document_aborts:
  assumes "i < length (sorted_selection (arrays h selectedDocuments))"
    and "documentFails env i (sorted_selection (arrays h selectedDocuments) ! i)"
  shows "snd (snd (generatePacket env this formData h selectedDocuments)) =
           Rejected (Error ''One or more documents could not be loaded. Please verify all documents are accessible and try again.'')
       \<and> (\<forall>request \<in> set (fst (snd (generatePacket env this formData h selectedDocuments))).
            \<exists>u. request = Fetch u)
       \<and> (\<exists>j<length (sorted_selection (arrays h selectedDocuments)).
             documentFails env j (sorted_selection (arrays h selectedDocuments) ! j)
           \<and> (\<forall>k<length (sorted_selection (arrays h selectedDocuments)).
                 documentFails env k (sorted_selection (arrays h selectedDocuments) ! k) \<longrightarrow>
                 settles_at env j (sorted_selection (arrays h selectedDocuments) ! j)
                   \<le> settles_at env k (sorted_selection (arrays h selectedDocuments) ! k))
           \<and> snd (fetchDocuments env (sorted_selection (arrays h selectedDocuments))) =
               Rejected (Error (''Failed to process document: ''
                 @ template (Document.name (document (sorted_selection (arrays h selectedDocuments) ! j))))))"
proof -
  let ?S = "sorted_selection (arrays h selectedDocuments)"
  note run = failing_document [OF assms, of this formData]
  from assms(2) obtain e where "snd (snd (processDocument env i (?S ! i))) = Rejected e"
    using processDocument_fails by blast
  from fetchDocuments_Rejected_if [OF assms(1) this] obtain e'
    where e': "snd (fetchDocuments env ?S) = Rejected e'"
    by blast
  from first_failure_named [OF e'] e'
  have "\<exists>j<length ?S. documentFails env j (?S ! j)
           \<and> (\<forall>k<length ?S. documentFails env k (?S ! k) \<longrightarrow>
                 settles_at env j (?S ! j) \<le> settles_at env k (?S ! k))
           \<and> snd (fetchDocuments env ?S) =
               Rejected (Error (''Failed to process document: '' @ template (Document.name (document (?S ! j)))))"
    by auto
  moreover have "\<forall>request \<in> set (fst (snd (generatePacket env this formData h selectedDocuments))).
            \<exists>u. request = Fetch u"
    by (auto simp: run dest: fetchDocuments_only_fetches)
  moreover have "snd (snd (generatePacket env this formData h selectedDocuments)) =
           Rejected (Error ''One or more documents could not be loaded. Please verify all documents are accessible and try again.'')"
    by (simp add: run)
  ultimately show ?thesis
    by (intro conjI)
qed

theorem failing_document_aborts_witness:
  "snd (snd (generatePacket (sample_env sample_sources (Fulfilled []) Pending) (constructor None) sample_form
              (sample_heap [sample_document ''A'' None True 1]) 0)) =
     Rejected (Error ''One or more documents could not be loaded. Please verify all documents are accessible and try again.'')"
proof -
  have "0 < length (sorted_selection (arrays (sample_heap [sample_document ''A'' None True 1]) 0))"
    by (simp add: sorted_selection_def stable_sort_def sample_heap_def sample_document_def)
  from failing_document_aborts [OF this sample_missing_url] show ?thesis
    by (rule conjunct1)
qed

text \<open>
  The error with which the call fails does not name the document: for a single selected
  document \<open>A.pdf\<close> without a URL it is the general error, in which \<open>A.pdf\<close> does
  not occur.
\<close>

theorem failing_document_not_named:
  "documentFails (sample_env sample_sources (Fulfilled []) Pending) 0 (sample_document ''A'' None True 1)
   \<and> Document.name (document (sample_document ''A'' None True 1)) = Some ''A.pdf''
   \<and> snd (snd (generatePacket (sample_env sample_sources (Fulfilled []) Pending) (constructor None) sample_form
              (sample_heap [sample_document ''A'' None True 1]) 0)) =
       Rejected (Error ''One or more documents could not be loaded. Please verify all documents are accessible and try again.'')
   \<and> \<not> String_includes ''One or more documents could not be loaded. Please verify all documents are accessible and try again.'' ''A.pdf''"
proof -
  have "0 < length (sorted_selection (arrays (sample_heap [sample_document ''A'' None True 1]) 0))"
    by (simp add: sorted_selection_def stable_sort_def sample_heap_def sample_document_def)
  from failing_document [OF this sample_missing_url]
  have "snd (snd (generatePacket (sample_env sample_sources (Fulfilled []) Pending) (constructor None) sample_form
              (sample_heap [sample_document ''A'' None True 1]) 0)) =
       Rejected (Error ''One or more documents could not be loaded. Please verify all documents are accessible and try again.'')"
    by simp
  moreover have "documentFails (sample_env sample_sources (Fulfilled []) Pending) 0 (sample_document ''A'' None True 1)"
    by (simp add: documentFails_def sample_document_def)
  moreover have "Document.name (document (sample_document ''A'' None True 1)) = Some ''A.pdf''"
    by (simp add: sample_document_def)
  moreover have "\<not> String_includes ''One or more documents could not be loaded. Please verify all documents are accessible and try again.'' ''A.pdf''"
    by simp
  ultimately show ?thesis
    by (intro conjI)
qed

text \<open>
  C5. When the directory lookup fails while every selected document loads, the request is
  still sent, its \<open>allAvailableDocuments\<close> is the empty list, and the call returns the
  bytes of the rendering service whenever that answers with a success status and a
  non-empty body.
\<close>

theorem directory_failure_tolerated:
  assumes "sorted_selection (arrays h selectedDocuments) \<noteq> []"
    and "\<forall>i<length (sorted_selection (arrays h selectedDocuments)).
           \<exists>data. documentLoads env i (sorted_selection (arrays h selectedDocuments) ! i) data"
    and "getDocumentsByProductType env (orElse (productType formData) ''structural-floor'') = Rejected e"
  shows "\<exists>fetches payload.
           fst (snd (generatePacket env this formData h selectedDocuments)) =
             fetches @ [GetDocumentsByProductType (orElse (productType formData) ''structural-floor''),
                        Post (workerUrl this @ ''/generate-packet'') payload]
         \<and> allAvailableDocuments payload = []
         \<and> (\<forall>workerResponse pdfBuffer.
               fetch_worker env (workerUrl this @ ''/generate-packet'') payload = Fulfilled workerResponse
               \<and> ok workerResponse \<and> arrayBuffer workerResponse = Fulfilled pdfBuffer \<and> pdfBuffer \<noteq> []
               \<longrightarrow> snd (snd (generatePacket env this formData h selectedDocuments)) = Fulfilled pdfBuffer)"
proof -
  let ?S = "sorted_selection (arrays h selectedDocuments)"
  let ?pt = "orElse (productType formData) ''structural-floor''"
  from fetchDocuments_loads [OF assms(2)] obtain ds where ds: "snd (fetchDocuments env ?S) = Fulfilled ds"
    by blast
  define payload where "payload = buildPayload env formData ?pt ?S ds []"
  have run: "snd (generatePacket env this formData h selectedDocuments) =
           (fst (fetchDocuments env ?S) @ [GetDocumentsByProductType ?pt,
                 Post (workerUrl this @ ''/generate-packet'') payload],
            catch (await (fetch_worker env (workerUrl this @ ''/generate-packet'') payload) (handleResponse env))
              (\<lambda>error. Rejected (classify this error)))"
    by (rule generatePacket_sends [OF assms(1) ds _ payload_def]) (simp add: assms(3))
  have "allAvailableDocuments payload = []"
    by (simp add: payload_def buildPayload_def)
  moreover have "fst (snd (generatePacket env this formData h selectedDocuments)) =
      fst (fetchDocuments env ?S) @ [GetDocumentsByProductType ?pt, Post (workerUrl this @ ''/generate-packet'') payload]"
    by (simp add: run)
  moreover have "\<forall>workerResponse pdfBuffer.
               fetch_worker env (workerUrl this @ ''/generate-packet'') payload = Fulfilled workerResponse
               \<and> ok workerResponse \<and> arrayBuffer workerResponse = Fulfilled pdfBuffer \<and> pdfBuffer \<noteq> []
               \<longrightarrow> snd (snd (generatePacket env this formData h selectedDocuments)) = Fulfilled pdfBuffer"
    by (simp add: run await_def catch_def handleResponse_def)
  ultimately show ?thesis
    by blast
qed

theorem directory_failure_tolerated_witness:
  "\<exists>fetches payload.
     fst (snd (generatePacket
       (sample_env sample_sources (Rejected (Error ''registry unavailable''))
          (Fulfilled (sample_reply 200 ''OK'' Pending Pending (Fulfilled [37, 80, 68, 70]))))
       (constructor None) sample_form (sample_heap sample_selection) 0)) =
       fetches @ [GetDocumentsByProductType ''structural-floor'', Post sample_endpoint payload]
     \<and> allAvailableDocuments payload = []
     \<and> snd (snd (generatePacket
       (sample_env sample_sources (Rejected (Error ''registry unavailable''))
          (Fulfilled (sample_reply 200 ''OK'' Pending Pending (Fulfilled [37, 80, 68, 70]))))
       (constructor None) sample_form (sample_heap sample_selection) 0)) = Fulfilled [37, 80, 68, 70]"
proof -
  let ?env = "sample_env sample_sources (Rejected (Error ''registry unavailable''))
          (Fulfilled (sample_reply 200 ''OK'' Pending Pending (Fulfilled [37, 80, 68, 70])))"
  have ne: "sorted_selection (arrays (sample_heap sample_selection) 0) \<noteq> []"
    by (simp add: sample_sorted)
  have loads: "\<forall>i<length (sorted_selection (arrays (sample_heap sample_selection) 0)).
           \<exists>data. documentLoads ?env i (sorted_selection (arrays (sample_heap sample_selection) 0) ! i) data"
    by (auto simp: sample_sorted less_Suc_eq intro: sample_loads)
  have dir: "getDocumentsByProductType ?env (orElse (productType sample_form) ''structural-floor'') =
               Rejected (Error ''registry unavailable'')"
    by (simp add: sample_env_def)
  from directory_failure_tolerated [OF ne loads dir, of "constructor None"]
  obtain fetches payload where
    "fst (snd (generatePacket ?env (constructor None) sample_form (sample_heap sample_selection) 0)) =
       fetches @ [GetDocumentsByProductType (orElse (productType sample_form) ''structural-floor''),
                  Post (workerUrl (constructor None) @ ''/generate-packet'') payload]"
    "allAvailableDocuments payload = []"
    "fetch_worker ?env (workerUrl (constructor None) @ ''/generate-packet'') payload =
        Fulfilled (sample_reply 200 ''OK'' Pending Pending (Fulfilled [37, 80, 68, 70]))
     \<and> ok (sample_reply 200 ''OK'' Pending Pending (Fulfilled [37, 80, 68, 70]))
     \<and> arrayBuffer (sample_reply 200 ''OK'' Pending Pending (Fulfilled [37, 80, 68, 70])) = Fulfilled [37, 80, 68, 70]
     \<and> [37, 80, 68, 70] \<noteq> ([] :: byte list)
     \<longrightarrow> snd (snd (generatePacket ?env (constructor None) sample_form (sample_heap sample_selection) 0)) =
           Fulfilled [37, 80, 68, 70]"
    by blast
  moreover have "fetch_worker ?env u p = Fulfilled (sample_reply 200 ''OK'' Pending Pending (Fulfilled [37, 80, 68, 70]))" for u p
    by (simp add: sample_env_def)
  moreover have "ok (sample_reply 200 ''OK'' Pending Pending (Fulfilled [37, 80, 68, 70]))"
    by (simp add: ok_def sample_reply_def)
  moreover have "arrayBuffer (sample_reply 200 ''OK'' Pending Pending (Fulfilled [37, 80, 68, 70])) = Fulfilled [37, 80, 68, 70]"
    by (simp add: sample_reply_def)
  moreover have "workerUrl (constructor None) @ ''/generate-packet'' = sample_endpoint"
    by (simp add: constructor_def orElse_def sample_endpoint_def)
  moreover have "orElse (productType sample_form) ''structural-floor'' = ''structural-floor''"
    by (simp add: sample_form_def orElse_def)
  ultimately show ?thesis
    by auto
qed




text \<open>
  C7. When the rendering service answers the request with a status from 200 to 299, the
  call fails with \<open>Received empty PDF from worker\<close> if the body has no bytes, and returns
  exactly the bytes of the body otherwise.
\<close>

theorem empty_artifact_rejected:
  assumes "Post endpoint payload \<in> set (fst (snd (generatePacket env this formData h selectedDocuments)))"
    and "fetch_worker env endpoint payload = Fulfilled workerResponse"
    and "ok workerResponse"
    and "arrayBuffer workerResponse = Fulfilled pdfBuffer"
  shows "snd (snd (generatePacket env this formData h selectedDocuments)) =
           (if pdfBuffer = [] then Rejected (Error ''Received empty PDF from worker'')
            else Fulfilled pdfBuffer)"
proof -
  from posted_request [OF assms(1)]
  have "snd (snd (generatePacket env this formData h selectedDocuments)) =
          catch (await (fetch_worker env endpoint payload) (handleResponse env))
            (\<lambda>error. Rejected (classify this error))"
    by blast
  with assms(2-4) show ?thesis
    by (simp add: await_def catch_def handleResponse_def classify_empty_pdf)
qed

theorem empty_artifact_rejected_witness:
  "snd (snd (generatePacket
       (sample_env sample_sources (Fulfilled []) (Fulfilled (sample_reply 200 ''OK'' Pending Pending (Fulfilled []))))
       (constructor None) sample_form (sample_heap sample_selection) 0)) =
     Rejected (Error ''Received empty PDF from worker'')
   \<and> snd (snd (generatePacket
       (sample_env sample_sources (Fulfilled []) (Fulfilled (sample_reply 200 ''OK'' Pending Pending (Fulfilled [37, 80, 68, 70]))))
       (constructor None) sample_form (sample_heap sample_selection) 0)) =
     Fulfilled [37, 80, 68, 70]"
proof -
  have sent: "Post sample_endpoint (sample_payload []) \<in>
          set (fst (snd (generatePacket (sample_env sample_sources (Fulfilled []) (Fulfilled (sample_reply 200 ''OK'' Pending Pending (Fulfilled bytes)))) (constructor None)
                 sample_form (sample_heap sample_selection) 0)))" for bytes
    by (simp add: sample_run [of _ "[]"])
  have reply: "fetch_worker (sample_env sample_sources (Fulfilled []) (Fulfilled (sample_reply 200 ''OK'' Pending Pending (Fulfilled bytes))))
                 sample_endpoint (sample_payload []) = Fulfilled (sample_reply 200 ''OK'' Pending Pending (Fulfilled bytes))" for bytes
    by (simp add: sample_env_def)
  have ok: "ok (sample_reply 200 ''OK'' Pending Pending (Fulfilled bytes))" for bytes
    by (simp add: ok_def sample_reply_def)
  have body: "arrayBuffer (sample_reply 200 ''OK'' Pending Pending (Fulfilled bytes)) = Fulfilled bytes" for bytes
    by (simp add: sample_reply_def)
  from empty_artifact_rejected [OF sent reply ok body, of "[]"]
       empty_artifact_rejected [OF sent reply ok body, of "[37, 80, 68, 70]"]
  show ?thesis
    by simp
qed

text \<open>
  C8. For an entry whose data URL has an empty base64 part (the second piece of the split
  at commas is empty or missing), \<open>reject\<close> is called and then \<open>resolve\<close>, and the
  first call settles: the encoding promise is rejected with
  \<open>Failed to encode document as base64\<close>. Processing the entry then fails, with the
  error that wraps it and names the document, and a call whose sorted selection contains
  the entry fails.
\<close>

theorem empty_encoding_rejected:
  assumes "Document.url (document doc) = Some u" and "u \<noteq> []"
    and "fetch_document env i u = Fulfilled r" and "ok r"
    and "blob r = Fulfilled b" and "readAsDataURL b = Load base64String"
    and "orElse (index (String_split CHR '','' base64String) 1) [] = []"
  shows "encode b = resolve [] (reject (Error ''Failed to encode document as base64'') Pending)
       \<and> encode b = Rejected (Error ''Failed to encode document as base64'')
       \<and> fetchFileData env i u = Rejected (Error ''Failed to encode document as base64'')
       \<and> snd (snd (processDocument env i doc)) =
           Rejected (Error (''Failed to process document: '' @ template (Document.name (document doc))))
       \<and> (i < length (sorted_selection (arrays h selectedDocuments))
            \<and> sorted_selection (arrays h selectedDocuments) ! i = doc \<longrightarrow>
          snd (snd (generatePacket env this formData h selectedDocuments)) =
            Rejected (Error ''One or more documents could not be loaded. Please verify all documents are accessible and try again.''))"
proof -
  have calls: "encode b = resolve [] (reject (Error ''Failed to encode document as base64'') Pending)"
    using assms(6,7) by (simp add: encode_def onloadend_def Let_def)
  have enc: "encode b = Rejected (Error ''Failed to encode document as base64'')"
    using assms(6,7) by (simp add: encode_cases)
  have data: "fetchFileData env i u = Rejected (Error ''Failed to encode document as base64'')"
    using assms(3-5) enc by (simp add: fetchFileData_def await_def)
  have fails: "documentFails env i doc"
    using assms by (simp add: documentFails_def)
  then obtain e where "snd (snd (processDocument env i doc)) = Rejected e"
    using processDocument_fails by blast
  with processDocument_Rejected [OF this]
  have proc: "snd (snd (processDocument env i doc)) =
           Rejected (Error (''Failed to process document: '' @ template (Document.name (document doc))))"
    by simp
  have "i < length (sorted_selection (arrays h selectedDocuments))
            \<and> sorted_selection (arrays h selectedDocuments) ! i = doc \<longrightarrow>
          snd (snd (generatePacket env this formData h selectedDocuments)) =
            Rejected (Error ''One or more documents could not be loaded. Please verify all documents are accessible and try again.'')"
  proof
    assume *: "i < length (sorted_selection (arrays h selectedDocuments))
            \<and> sorted_selection (arrays h selectedDocuments) ! i = doc"
    with fails have "documentFails env i (sorted_selection (arrays h selectedDocuments) ! i)"
      by simp
    from failing_document [OF conjunct1 [OF *] this]
    show "snd (snd (generatePacket env this formData h selectedDocuments)) =
            Rejected (Error ''One or more documents could not be loaded. Please verify all documents are accessible and try again.'')"
      by simp
  qed
  with calls enc data proc show ?thesis
    by (intro conjI)
qed

theorem empty_encoding_rejected_witness:
  "encode \<lparr>Blob.type = ''application/pdf'', readAsDataURL = Load ''data:application/pdf;base64,''\<rparr> =
     Rejected (Error ''Failed to encode document as base64'')
   \<and> snd (snd (processDocument (sample_env sample_empty_source (Fulfilled []) Pending) 0
         (sample_document ''A'' (Some ''https://x/A.pdf'') True 1))) =
       Rejected (Error ''Failed to process document: A.pdf'')
   \<and> snd (snd (generatePacket (sample_env sample_empty_source (Fulfilled []) Pending) (constructor None)
         sample_form (sample_heap [sample_document ''A'' (Some ''https://x/A.pdf'') True 1]) 0)) =
       Rejected (Error ''One or more documents could not be loaded. Please verify all documents are accessible and try again.'')"
proof -
  let ?env = "sample_env sample_empty_source (Fulfilled []) Pending"
  let ?doc = "sample_document ''A'' (Some ''https://x/A.pdf'') True 1"
  let ?b = "\<lparr>Blob.type = ''application/pdf'', readAsDataURL = Load ''data:application/pdf;base64,''\<rparr>"
  have 1: "Document.url (document ?doc) = Some ''https://x/A.pdf''"
    by (simp add: sample_document_def)
  have 2: "''https://x/A.pdf'' \<noteq> []"
    by simp
  have 3: "fetch_document ?env 0 ''https://x/A.pdf'' =
             Fulfilled (sample_source 200 ''OK'' (Load ''data:application/pdf;base64,''))"
    by (simp add: sample_env_def sample_empty_source_def)
  have 4: "ok (sample_source 200 ''OK'' (Load ''data:application/pdf;base64,''))"
    by (simp add: ok_def sample_source_def)
  have 5: "blob (sample_source 200 ''OK'' (Load ''data:application/pdf;base64,'')) = Fulfilled ?b"
    by (simp add: sample_source_def)
  have 6: "readAsDataURL ?b = Load ''data:application/pdf;base64,''"
    by simp
  have 7: "orElse (index (String_split CHR '','' ''data:application/pdf;base64,'') 1) [] = []"
    by (simp add: orElse_def)
  have sel: "0 < length (sorted_selection (arrays (sample_heap [?doc]) 0))
             \<and> sorted_selection (arrays (sample_heap [?doc]) 0) ! 0 = ?doc"
    by (simp add: sorted_selection_def stable_sort_def sample_heap_def sample_document_def)
  note T = empty_encoding_rejected [OF 1 2 3 4 5 6 7, of "sample_heap [?doc]" 0 "constructor None" sample_form]
  from T have "encode ?b = Rejected (Error ''Failed to encode document as base64'')"
    by (elim conjE)
  moreover from T have "snd (snd (processDocument ?env 0 ?doc)) = Rejected (Error ''Failed to process document: A.pdf'')"
    by (elim conjE) (simp add: sample_document_def template_def)
  moreover from T [THEN conjunct2, THEN conjunct2, THEN conjunct2, THEN conjunct2, rule_format, OF sel]
  have "snd (snd (generatePacket ?env (constructor None) sample_form (sample_heap [?doc]) 0)) =
       Rejected (Error ''One or more documents could not be loaded. Please verify all documents are accessible and try again.'')" .
  ultimately show ?thesis
    by (intro conjI)
qed

text \<open>
  C9. In every request that is sent to the rendering service, each element of
  \<open>documents\<close> has a non-empty \<open>fileData\<close>: an empty encoding rejects before
  \<open>resolve\<close> is reached, so the fallback \<open>fileData || ''\<close> never yields the empty string
  in a request that is sent.
\<close>

theorem sent_documents_have_fileData:
  assumes "Post endpoint payload \<in> set (fst (snd (generatePacket env this formData h selectedDocuments)))"
  shows "\<forall>d \<in> set (documents payload). fileData d \<noteq> []"
proof
  fix d assume d: "d \<in> set (documents payload)"
  let ?S = "sorted_selection (arrays h selectedDocuments)"
  from posted_request [OF assms] obtain ds where
    ds: "snd (fetchDocuments env ?S) = Fulfilled ds" and "documents payload = ds"
    by (auto simp: buildPayload_def)
  with d obtain i where i: "i < length ds" "d = ds ! i"
    by (auto simp: in_set_conv_nth)
  with fetchDocuments_Fulfilled [OF ds]
  have "snd (snd (processDocument env i (?S ! i))) = Fulfilled d"
    by simp
  then show "fileData d \<noteq> []"
    by (auto dest: processDocument_Fulfilled)
qed

theorem sent_documents_have_fileData_witness:
  "list_all (\<lambda>d. fileData d \<noteq> []) (documents (sample_payload []))"
proof -
  have "Post sample_endpoint (sample_payload []) \<in>
          set (fst (snd (generatePacket (sample_env sample_sources (Fulfilled []) Pending) (constructor None)
                 sample_form (sample_heap sample_selection) 0)))"
    by (simp add: sample_run [of _ "[]"])
  from sent_documents_have_fileData [OF this] show ?thesis
    by (simp add: list_all_iff)
qed

text \<open>
  C10. The call leaves the caller's array as it was: \<open>filter\<close> allocates a new array and
  only that one is sorted in place, so the array at the caller's reference, and every
  other array that existed before the call, has the same elements in the same order.
\<close>

theorem input_array_unchanged:
  assumes "selectedDocuments < allocated h"
  shows "arrays (fst (generatePacket env this formData h selectedDocuments)) selectedDocuments =
           arrays h selectedDocuments
         \<and> (\<forall>a < allocated h. arrays (fst (generatePacket env this formData h selectedDocuments)) a = arrays h a)"
proof -
  have "fst (generatePacket env this formData h selectedDocuments) = after_selection h selectedDocuments"
    by (simp add: generatePacket_unfold generatePacket_try_unfold split: promise.splits)
  with assms show ?thesis
    by (simp add: after_selection_def)
qed

theorem input_array_unchanged_witness:
  "(0::nat) < allocated (sample_heap [sample_document ''A'' None True 2, sample_document ''B'' None True 1])
   \<and> arrays (fst (generatePacket (sample_env sample_sources (Fulfilled []) Pending) (constructor None) sample_form
        (sample_heap [sample_document ''A'' None True 2, sample_document ''B'' None True 1]) 0)) 0 =
      [sample_document ''A'' None True 2, sample_document ''B'' None True 1]"
proof -
  have valid: "(0::nat) < allocated (sample_heap [sample_document ''A'' None True 2, sample_document ''B'' None True 1])"
    by (simp add: sample_heap_def)
  from valid input_array_unchanged [OF valid, of "sample_env sample_sources (Fulfilled []) Pending" "constructor None" sample_form]
  show ?thesis
    by (simp add: sample_heap_def)
qed

end
